theory Spec2Isabelle
  imports Complex_Main "HOL-Library.Word"
begin

section \<open>JavaScript values\<close>

text \<open>
  The body the provider's token endpoint returns is whatever \<^verbatim>\<open>response.json()\<close> parses:
  any JSON value, not only an object. An object keeps its properties in insertion order;
  a property is looked up by name and the first binding of the list is the one the
  object has. A number is the double the JSON parser produced: a finite one, given by
  its rational value (so that both zeros are \<open>Finite 0\<close>), or, for a numeral
  beyond the range of a double, one of the two infinities. A string is the list of its
  bytes in UTF-8.
\<close>

datatype jsnum = Finite rat | PosInf | NegInf

datatype jsval =
    JNull
  | JBool bool
  | JNum jsnum
  | JStr string
  | JArr "jsval list"
  | JObj "(string \<times> jsval) list"

text \<open>
  A value of \<^verbatim>\<open>req.query\<close>, as the query-string parser of Express builds it: a string,
  an array (\<^verbatim>\<open>?a=1&a=2\<close>) or a nested object (\<^verbatim>\<open>?a[b]=1\<close>).
\<close>

datatype qval =
    QStr string
  | QArr "qval list"
  | QObj "(string \<times> qval) list"

text \<open>An exception of the JavaScript runtime; the handlers read only its \<^verbatim>\<open>message\<close>.\<close>

datatype js_error = Error (message: string)

text \<open>
  A value read from a property or a variable is \<open>None\<close> when JavaScript has
  \<^verbatim>\<open>undefined\<close> there.
\<close>

fun truthy :: "jsval option \<Rightarrow> bool" where
  "truthy None = False"
| "truthy (Some JNull) = False"
| "truthy (Some (JBool b)) = b"
| "truthy (Some (JNum n)) = (n \<noteq> Finite 0)"
| "truthy (Some (JStr s)) = (s \<noteq> [])"
| "truthy (Some (JArr xs)) = True"
| "truthy (Some (JObj kvs)) = True"

fun q_truthy :: "qval option \<Rightarrow> bool" where
  "q_truthy None = False"
| "q_truthy (Some (QStr s)) = (s \<noteq> [])"
| "q_truthy (Some (QArr xs)) = True"
| "q_truthy (Some (QObj kvs)) = True"

text \<open>\<^verbatim>\<open>a || b\<close>\<close>

definition js_or :: "jsval option \<Rightarrow> jsval option \<Rightarrow> jsval option" where
  "js_or a b = (if truthy a then a else b)"

fun join :: "string \<Rightarrow> string list \<Rightarrow> string" where
  "join sep [] = []"
| "join sep [x] = x"
| "join sep (x # y # r) = x @ sep @ join sep (y # r)"

text \<open>
  \<^verbatim>\<open>String(v)\<close> for a query value, which is what a template literal and
  \<^verbatim>\<open>URLSearchParams\<close> apply. A string is itself. An array is its elements, each converted
  in turn, joined by commas. A plain object is \<^verbatim>\<open>[object Object]\<close>, unless it has a
  property of its own named \<^verbatim>\<open>toString\<close> (the query parser of Express 4 builds one from
  \<^verbatim>\<open>?a[toString]=x\<close>): that property is not a function, the inherited \<^verbatim>\<open>valueOf\<close> returns
  the object itself, and the conversion throws a TypeError.
\<close>

definition primitive_conversion_error :: js_error where
  "primitive_conversion_error = Error ''Cannot convert object to primitive value''"

text \<open>The results of a list of conversions made in order: the first exception ends them.\<close>

fun in_turn :: "(js_error + 'a) list \<Rightarrow> js_error + 'a list" where
  "in_turn [] = Inr []"
| "in_turn (Inl err # rs) = Inl err"
| "in_turn (Inr v # rs) = (case in_turn rs of Inl err \<Rightarrow> Inl err | Inr vs \<Rightarrow> Inr (v # vs))"

fun q_String :: "qval \<Rightarrow> js_error + string" where
  "q_String (QStr s) = Inr s"
| "q_String (QArr xs) =
     (case in_turn (map q_String xs) of
        Inl err \<Rightarrow> Inl err
      | Inr texts \<Rightarrow> Inr (join '','' texts))"
| "q_String (QObj kvs) =
     (if map_of kvs ''toString'' = None then Inr ''[object Object]''
      else Inl primitive_conversion_error)"

text \<open>The same for a variable that may be \<^verbatim>\<open>undefined\<close>.\<close>

fun q_String_opt :: "qval option \<Rightarrow> js_error + string" where
  "q_String_opt None = Inr ''undefined''"
| "q_String_opt (Some v) = q_String v"

text \<open>A query value placed in a response body is the JSON value of the same shape.\<close>

primrec q_json :: "qval \<Rightarrow> jsval" where
  "q_json (QStr s) = JStr s"
| "q_json (QArr xs) = JArr (map q_json xs)"
| "q_json (QObj kvs) = JObj (map (map_prod id q_json) kvs)"

text \<open>
  \<^verbatim>\<open>data.k\<close> for a value \<open>data\<close> that is not \<^verbatim>\<open>null\<close> and one of the property names the
  handlers read (\<^verbatim>\<open>error\<close>, \<^verbatim>\<open>error_description\<close>, \<^verbatim>\<open>access_token\<close>, \<^verbatim>\<open>token_type\<close>,
  \<^verbatim>\<open>scope\<close>, \<^verbatim>\<open>expires_in\<close>, \<^verbatim>\<open>refresh_token\<close>): none of them is a property of a
  string, a number, a boolean or an array, so only an object can have it.
\<close>

fun member :: "jsval \<Rightarrow> string \<Rightarrow> jsval option" where
  "member (JObj kvs) k = map_of kvs k"
| "member v k = None"

text \<open>Reading a property of \<^verbatim>\<open>null\<close> throws a TypeError.\<close>

definition null_property_message :: "string \<Rightarrow> string" where
  "null_property_message k =
     ''Cannot read properties of null (reading '' @ [CHR 0x27] @ k @ [CHR 0x27] @ '')''"

definition get_member :: "jsval \<Rightarrow> string \<Rightarrow> js_error + jsval option" where
  "get_member v k =
     (if v = JNull then Inl (Error (null_property_message k)) else Inr (member v k))"

text \<open>
  \<^verbatim>\<open>JSON.stringify\<close>, as the JSON value it writes for a value: it writes \<^verbatim>\<open>null\<close> for a
  number that is not finite, wherever in the value the number is, and everything else as
  it is.
\<close>

primrec JSON_stringify :: "jsval \<Rightarrow> jsval" where
  "JSON_stringify JNull = JNull"
| "JSON_stringify (JBool b) = JBool b"
| "JSON_stringify (JNum n) = (case n of Finite r \<Rightarrow> JNum (Finite r) | PosInf \<Rightarrow> JNull | NegInf \<Rightarrow> JNull)"
| "JSON_stringify (JStr s) = JStr s"
| "JSON_stringify (JArr xs) = JArr (map JSON_stringify xs)"
| "JSON_stringify (JObj kvs) = JObj (map (map_prod id JSON_stringify) kvs)"

text \<open>No number in the value is infinite.\<close>

primrec finite_json :: "jsval \<Rightarrow> bool" where
  "finite_json JNull = True"
| "finite_json (JBool b) = True"
| "finite_json (JNum n) = (n \<noteq> PosInf \<and> n \<noteq> NegInf)"
| "finite_json (JStr s) = True"
| "finite_json (JArr xs) = list_all (\<lambda>b. b) (map finite_json xs)"
| "finite_json (JObj kvs) = list_all (\<lambda>p. snd p) (map (map_prod id finite_json) kvs)"

section \<open>Configuration\<close>

text \<open>
  The three constants read from \<^verbatim>\<open>process.env\<close> when the module is loaded; an
  environment variable that is not set is \<^verbatim>\<open>undefined\<close>.
\<close>

record config =
  CLIENT_ID :: "string option"
  CLIENT_SECRET :: "string option"
  REDIRECT_URI :: "string option"

text \<open>\<^verbatim>\<open>!v\<close> is false exactly for a non-empty string.\<close>

fun env_truthy :: "string option \<Rightarrow> bool" where
  "env_truthy None = False"
| "env_truthy (Some s) = (s \<noteq> [])"

fun env_String :: "string option \<Rightarrow> string" where
  "env_String None = ''undefined''"
| "env_String (Some s) = s"

definition SCOPES :: string where
  "SCOPES = join '' ''
     [''user-read-private'',
      ''user-read-email'',
      ''playlist-read-private'',
      ''playlist-modify-public'',
      ''playlist-modify-private'',
      ''user-library-read'',
      ''user-top-read'',
      ''user-read-playback-state'',
      ''user-modify-playback-state'']"

section \<open>Helpers\<close>

subsection \<open>generateState\<close>

text \<open>
  \<^verbatim>\<open>crypto.randomBytes(length)\<close> takes \<open>length\<close> bytes from the entropy source, here the
  function \<open>rng\<close>; \<^verbatim>\<open>toString('hex')\<close> writes each byte as two lower-case hexadecimal
  digits.
\<close>

definition randomBytes :: "(nat \<Rightarrow> 8 word) \<Rightarrow> nat \<Rightarrow> 8 word list" where
  "randomBytes rng n = map rng [0..<n]"

definition hex_digits :: string where
  "hex_digits = ''0123456789abcdef''"

definition hex_byte :: "8 word \<Rightarrow> string" where
  "hex_byte b = [hex_digits ! (unat b div 16), hex_digits ! (unat b mod 16)]"

definition toString_hex :: "8 word list \<Rightarrow> string" where
  "toString_hex bs = concat (map hex_byte bs)"

definition generateState :: "(nat \<Rightarrow> 8 word) \<Rightarrow> nat \<Rightarrow> string" where
  "generateState rng len = toString_hex (randomBytes rng len)"

subsection \<open>URLSearchParams\<close>

text \<open>
  A string is the list of its bytes in UTF-8, which is what the serialiser encodes.
  \<^verbatim>\<open>URLSearchParams.prototype.toString\<close> is the \<^verbatim>\<open>application/x-www-form-urlencoded\<close>
  serialiser: letters, digits and \<^verbatim>\<open>*-._\<close> stay, a space becomes \<^verbatim>\<open>+\<close>, every other byte
  becomes \<^verbatim>\<open>%\<close> and two upper-case hexadecimal digits; a name and its value are joined
  by \<^verbatim>\<open>=\<close>, the pairs by \<^verbatim>\<open>&\<close>.
\<close>

definition form_safe :: "char \<Rightarrow> bool" where
  "form_safe c \<longleftrightarrow>
     c \<in> set ''abcdefghijklmnopqrstuvwxyzABCDEFGHIJKLMNOPQRSTUVWXYZ0123456789*-._''"

definition HEX_digits :: string where
  "HEX_digits = ''0123456789ABCDEF''"

definition percent_encode :: "char \<Rightarrow> string" where
  "percent_encode c =
     [CHR ''%'', HEX_digits ! ((of_char c :: nat) div 16), HEX_digits ! ((of_char c :: nat) mod 16)]"

definition form_encode_char :: "char \<Rightarrow> string" where
  "form_encode_char c =
     (if form_safe c then [c] else if c = CHR '' '' then ''+'' else percent_encode c)"

definition form_encode :: "string \<Rightarrow> string" where
  "form_encode s = concat (map form_encode_char s)"

definition form_pair :: "string \<times> string \<Rightarrow> string" where
  "form_pair p = form_encode (fst p) @ ''='' @ form_encode (snd p)"

definition URLSearchParams_toString :: "(string \<times> string) list \<Rightarrow> string" where
  "URLSearchParams_toString ps = join ''&'' (map form_pair ps)"

subsection \<open>requestSpotifyTokens\<close>

text \<open>
  The one outbound call. \<open>basic_credentials\<close> is the text \<^verbatim>\<open>CLIENT_ID:CLIENT_SECRET\<close> that
  the \<^verbatim>\<open>Authorization\<close> header carries in base64 after the word \<^verbatim>\<open>Basic\<close>; \<open>form_body\<close> is
  the serialised \<^verbatim>\<open>URLSearchParams\<close>.
\<close>

record token_request =
  url :: string
  http_method :: string
  content_type :: string
  basic_credentials :: string
  form_body :: string

text \<open>
  \<open>fetch\<close> stands for the provider and the network: for a request it either rejects
  (a network error, or a body that \<^verbatim>\<open>response.json()\<close> cannot parse) or resolves to
  the parsed body. The function returns that outcome with the list of requests sent.
\<close>

definition requestSpotifyTokens ::
  "config \<Rightarrow> (token_request \<Rightarrow> js_error + jsval) \<Rightarrow> (string \<times> string) list
     \<Rightarrow> (js_error + jsval) \<times> token_request list" where
  "requestSpotifyTokens cfg fetch body =
     (let credentials = env_String (CLIENT_ID cfg) @ '':'' @ env_String (CLIENT_SECRET cfg);
          request = \<lparr> url = ''https://accounts.spotify.com/api/token'',
                      http_method = ''POST'',
                      content_type = ''application/x-www-form-urlencoded'',
                      basic_credentials = credentials,
                      form_body = URLSearchParams_toString body \<rparr>
      in (fetch request, [request]))"

section \<open>Requests and responses\<close>

record request =
  req_method :: string
  path :: string
  query :: "(string \<times> qval) list"

text \<open>
  \<open>Json status body\<close> is \<^verbatim>\<open>res.status(status).json(body)\<close>; \<open>Redirect status location\<close>
  is \<^verbatim>\<open>res.redirect(location)\<close>.
\<close>

datatype response =
    Json (status: nat) "jsval"
  | Redirect (status: nat) string

text \<open>
  \<^verbatim>\<open>res.json\<close> writes an object literal with \<^verbatim>\<open>JSON.stringify\<close>, which leaves out every
  property whose value is \<^verbatim>\<open>undefined\<close>. The body of a response is the JSON value
  written.
\<close>

fun own_fields :: "(string \<times> 'a option) list \<Rightarrow> (string \<times> 'a) list" where
  "own_fields [] = []"
| "own_fields ((k, None) # r) = own_fields r"
| "own_fields ((k, Some v) # r) = (k, v) # own_fields r"

definition res_json :: "nat \<Rightarrow> (string \<times> jsval option) list \<Rightarrow> response" where
  "res_json st props = Json st (JSON_stringify (JObj (own_fields props)))"

text \<open>The value of a property of a response's JSON body, \<open>None\<close> when the body has none.\<close>

fun body_field :: "response \<Rightarrow> string \<Rightarrow> jsval option" where
  "body_field (Json st body) k = member body k"
| "body_field (Redirect st loc) k = None"

section \<open>Middleware: require env vars\<close>

text \<open>\<open>None\<close> is \<^verbatim>\<open>next()\<close>.\<close>

definition misconfigured :: "response" where
  "misconfigured = res_json 500
     [(''error'', Some (JStr ''server_misconfigured'')),
      (''message'', Some (JStr
         ''SPOTIFY_CLIENT_ID, SPOTIFY_CLIENT_SECRET, and SPOTIFY_REDIRECT_URI must be set in environment variables.''))]"

definition require_env :: "config \<Rightarrow> request \<Rightarrow> response option" where
  "require_env cfg req =
     (if path req \<in> set [''/health'', ''/''] then None
      else if \<not> env_truthy (CLIENT_ID cfg) \<or> \<not> env_truthy (CLIENT_SECRET cfg)
              \<or> \<not> env_truthy (REDIRECT_URI cfg)
      then Some misconfigured
      else None)"

section \<open>Endpoints\<close>

definition home_handler :: "response" where
  "home_handler = res_json 200
     [(''name'', Some (JStr ''spotify-auth-redirect-callback'')),
      (''endpoints'', Some (JObj
         [(''GET /health'', JStr ''Health check''),
          (''GET /login'', JStr ''Redirect to Spotify authorization page''),
          (''GET /callback'', JStr ''Spotify OAuth2 callback (handles success & failure)''),
          (''GET /refresh_token'', JStr ''Refresh an access token (query: refresh_token)'')]))]"

text \<open>\<open>now\<close> is \<^verbatim>\<open>new Date().toISOString()\<close>.\<close>

definition health_handler :: "string \<Rightarrow> response" where
  "health_handler now = res_json 200
     [(''status'', Some (JStr ''ok'')), (''timestamp'', Some (JStr now))]"

text \<open>
  \<^verbatim>\<open>generateState()\<close> is called with its default length, 16. \<^verbatim>\<open>res.redirect\<close> answers
  with status 302 and writes the URL to the \<^verbatim>\<open>Location\<close> header after escaping the
  characters a URL cannot hold; what \<^verbatim>\<open>URLSearchParams\<close> wrote has none.
\<close>

definition login_handler :: "config \<Rightarrow> (nat \<Rightarrow> 8 word) \<Rightarrow> response" where
  "login_handler cfg rng =
     (let state = generateState rng 16;
          params = [(''response_type'', ''code''),
                    (''client_id'', env_String (CLIENT_ID cfg)),
                    (''scope'', SCOPES),
                    (''redirect_uri'', env_String (REDIRECT_URI cfg)),
                    (''state'', state)]
      in Redirect 302 (''https://accounts.spotify.com/authorize?'' @ URLSearchParams_toString params))"

text \<open>
  An \<^verbatim>\<open>async\<close> handler either writes a response (\<open>Inr\<close>) or throws outside any \<^verbatim>\<open>try\<close>
  (\<open>Inl\<close>): the promise it returned rejects, nothing catches it, and the application
  writes no response to the request.

  \<^verbatim>\<open>try { ... } catch (err) { ... }\<close>: the \<^verbatim>\<open>try\<close> block either throws or produces the
  response it returns; the \<^verbatim>\<open>catch\<close> branch answers what was thrown. What an awaited call
  rejects with is thrown where it is awaited.
\<close>

definition try_catch :: "js_error + 'a \<Rightarrow> (js_error \<Rightarrow> 'a) \<Rightarrow> 'a" where
  "try_catch block handler = (case block of Inl err \<Rightarrow> handler err | Inr r \<Rightarrow> r)"

definition await :: "js_error + 'a \<Rightarrow> ('a \<Rightarrow> js_error + 'b) \<Rightarrow> js_error + 'b" where
  "await outcome rest = (case outcome of Inl err \<Rightarrow> Inl err | Inr v \<Rightarrow> rest v)"

subsection \<open>GET /callback\<close>

text \<open>The statements of the \<^verbatim>\<open>try\<close> block after \<open>data\<close> has arrived.\<close>

definition callback_reply :: "jsval \<Rightarrow> js_error + response" where
  "callback_reply data =
     (case get_member data ''error'' of
        Inl err \<Rightarrow> Inl err
      | Inr data_error \<Rightarrow>
          if truthy data_error then
            Inr (res_json 400
              [(''success'', Some (JBool False)),
               (''error'', data_error),
               (''message'', js_or (member data ''error_description'')
                                   (Some (JStr ''Token exchange failed.'')))])
          else
            Inr (res_json 200
              [(''success'', Some (JBool True)),
               (''access_token'', member data ''access_token''),
               (''token_type'', member data ''token_type''),
               (''scope'', member data ''scope''),
               (''expires_in'', member data ''expires_in''),
               (''refresh_token'', member data ''refresh_token'')]))"

text \<open>
  The whole \<^verbatim>\<open>try\<close> block, with the requests it sent. \<^verbatim>\<open>new URLSearchParams({...})\<close>
  converts each value to a string; only the conversion of \<open>code\<close> can throw, and then
  no request is sent.
\<close>

definition callback_try ::
  "config \<Rightarrow> (token_request \<Rightarrow> js_error + jsval) \<Rightarrow> qval option
     \<Rightarrow> (js_error + response) \<times> token_request list" where
  "callback_try cfg fetch code =
     (case q_String_opt code of
        Inl err \<Rightarrow> (Inl err, [])
      | Inr code_text \<Rightarrow>
          (let body = [(''grant_type'', ''authorization_code''),
                       (''code'', code_text),
                       (''redirect_uri'', env_String (REDIRECT_URI cfg))];
               (outcome, sent) = requestSpotifyTokens cfg fetch body
           in (await outcome callback_reply, sent)))"

definition callback_catch :: "js_error \<Rightarrow> response" where
  "callback_catch err =
     res_json 500
       [(''success'', Some (JBool False)),
        (''error'', Some (JStr ''token_exchange_error'')),
        (''message'', Some (JStr (message err)))]"

text \<open>
  In the first branch \<^verbatim>\<open>res.status(400)\<close> only sets the status; the object literal is
  evaluated next, and if its template literal throws, \<^verbatim>\<open>json\<close> is never called.
\<close>

definition callback_handler ::
  "config \<Rightarrow> (token_request \<Rightarrow> js_error + jsval) \<Rightarrow> (string \<times> qval) list
     \<Rightarrow> (js_error + response) \<times> token_request list" where
  "callback_handler cfg fetch q =
     (let code = map_of q ''code''; error = map_of q ''error''; state = map_of q ''state'' in
      if q_truthy error then
        (case q_String_opt error of
           Inl err \<Rightarrow> (Inl err, [])
         | Inr error_text \<Rightarrow>
             (Inr (res_json 400
                [(''success'', Some (JBool False)),
                 (''error'', map_option q_json error),
                 (''message'', Some (JStr (''Spotify authorization failed: '' @ error_text))),
                 (''state'', Some (if q_truthy state then q_json (the state) else JNull))]),
              []))
      else if \<not> q_truthy code then
        (Inr (res_json 400
           [(''success'', Some (JBool False)),
            (''error'', Some (JStr ''missing_code'')),
            (''message'', Some (JStr ''No authorization code was returned by Spotify.''))]), [])
      else
        (let (block, sent) = callback_try cfg fetch code
         in (Inr (try_catch block callback_catch), sent)))"

subsection \<open>GET /refresh_token\<close>

definition refresh_reply :: "jsval \<Rightarrow> js_error + response" where
  "refresh_reply data =
     (case get_member data ''error'' of
        Inl err \<Rightarrow> Inl err
      | Inr data_error \<Rightarrow>
          if truthy data_error then
            Inr (res_json 400
              [(''success'', Some (JBool False)),
               (''error'', data_error),
               (''message'', js_or (member data ''error_description'')
                                   (Some (JStr ''Token refresh failed.'')))])
          else
            Inr (res_json 200
              ([(''success'', Some (JBool True)),
                (''access_token'', member data ''access_token''),
                (''token_type'', member data ''token_type''),
                (''scope'', member data ''scope''),
                (''expires_in'', member data ''expires_in'')]
               @ (if truthy (member data ''refresh_token'')
                  then [(''refresh_token'', member data ''refresh_token'')] else []))))"

definition refresh_try ::
  "config \<Rightarrow> (token_request \<Rightarrow> js_error + jsval) \<Rightarrow> qval option
     \<Rightarrow> (js_error + response) \<times> token_request list" where
  "refresh_try cfg fetch refresh_token =
     (case q_String_opt refresh_token of
        Inl err \<Rightarrow> (Inl err, [])
      | Inr refresh_token_text \<Rightarrow>
          (let body = [(''grant_type'', ''refresh_token''),
                       (''refresh_token'', refresh_token_text)];
               (outcome, sent) = requestSpotifyTokens cfg fetch body
           in (await outcome refresh_reply, sent)))"

definition refresh_catch :: "js_error \<Rightarrow> response" where
  "refresh_catch err =
     res_json 500
       [(''success'', Some (JBool False)),
        (''error'', Some (JStr ''refresh_token_error'')),
        (''message'', Some (JStr (message err)))]"

definition refresh_token_handler ::
  "config \<Rightarrow> (token_request \<Rightarrow> js_error + jsval) \<Rightarrow> (string \<times> qval) list
     \<Rightarrow> (js_error + response) \<times> token_request list" where
  "refresh_token_handler cfg fetch q =
     (let refresh_token = map_of q ''refresh_token'' in
      if \<not> q_truthy refresh_token then
        (Inr (res_json 400
           [(''success'', Some (JBool False)),
            (''error'', Some (JStr ''missing_refresh_token'')),
            (''message'', Some (JStr
               (''Query parameter '' @ [CHR 0x22] @ ''refresh_token'' @ [CHR 0x22] @ '' is required.'')))]),
         [])
      else
        (let (block, sent) = refresh_try cfg fetch refresh_token
         in (Inr (try_catch block refresh_catch), sent)))"

subsection \<open>404 handler\<close>

definition not_found :: "request \<Rightarrow> response" where
  "not_found req = res_json 404
     [(''error'', Some (JStr ''not_found'')),
      (''message'', Some (JStr (''Route '' @ req_method req @ '' '' @ path req @ '' not found.'')))]"

section \<open>The application\<close>

text \<open>
  What a request meets that is not the application's own code is a parameter or an input:
  \<^item> \<open>matches route p\<close> is the router's test of the request path \<open>p\<close> against a route
    path, as the Express version and its routing settings define it;
  \<^item> the entropy source, the clock and the provider are the \<open>world\<close> of one request.
  A route registered with \<^verbatim>\<open>app.get\<close> answers GET and HEAD. The model starts where the
  request reaches the first middleware of this file, after \<^verbatim>\<open>cors()\<close> and
  \<^verbatim>\<open>express.json()\<close> have passed it on.
\<close>

record world =
  entropy :: "nat \<Rightarrow> 8 word"
  clock :: string
  provider :: "token_request \<Rightarrow> js_error + jsval"

definition handles_get :: "string \<Rightarrow> bool" where
  "handles_get m \<longleftrightarrow> m = ''GET'' \<or> m = ''HEAD''"

definition routes :: "string list" where
  "routes = [''/'', ''/health'', ''/login'', ''/callback'', ''/refresh_token'']"

definition router ::
  "(string \<Rightarrow> string \<Rightarrow> bool) \<Rightarrow> config \<Rightarrow> world \<Rightarrow> request
     \<Rightarrow> (js_error + response) \<times> token_request list" where
  "router matches cfg w req =
     (if handles_get (req_method req) \<and> matches ''/'' (path req) then (Inr home_handler, [])
      else if handles_get (req_method req) \<and> matches ''/health'' (path req)
        then (Inr (health_handler (clock w)), [])
      else if handles_get (req_method req) \<and> matches ''/login'' (path req)
        then (Inr (login_handler cfg (entropy w)), [])
      else if handles_get (req_method req) \<and> matches ''/callback'' (path req)
        then callback_handler cfg (provider w) (query req)
      else if handles_get (req_method req) \<and> matches ''/refresh_token'' (path req)
        then refresh_token_handler cfg (provider w) (query req)
      else (Inr (not_found req), []))"

definition app ::
  "(string \<Rightarrow> string \<Rightarrow> bool) \<Rightarrow> config \<Rightarrow> world \<Rightarrow> request
     \<Rightarrow> (js_error + response) \<times> token_request list" where
  "app matches cfg w req =
     (case require_env cfg req of
        Some r \<Rightarrow> (Inr r, [])
      | None \<Rightarrow> router matches cfg w req)"

text \<open>
  The request is a GET or HEAD request and \<open>route\<close> is the first of the registered
  routes whose path test its path passes: the router runs the handler of that route.
\<close>

definition routed_to :: "(string \<Rightarrow> string \<Rightarrow> bool) \<Rightarrow> request \<Rightarrow> string \<Rightarrow> bool" where
  "routed_to matches req route \<longleftrightarrow>
     handles_get (req_method req) \<and> find (\<lambda>r. matches r (path req)) routes = Some route"

text \<open>
  The path test of an Express 4 application with its default settings (no strict and no
  case-sensitive routing): the case of ASCII letters is ignored and one trailing slash
  is allowed.
\<close>

definition lower :: "char \<Rightarrow> char" where
  "lower c = (if c \<in> set ''ABCDEFGHIJKLMNOPQRSTUVWXYZ'' then char_of ((of_char c :: nat) + 32) else c)"

definition express_match :: "string \<Rightarrow> string \<Rightarrow> bool" where
  "express_match route p \<longleftrightarrow>
     (let l = map lower p in
      l = route \<or> (route \<noteq> ''/'' \<and> l = route @ ''/''))"

section \<open>Reading a redirect target\<close>

text \<open>
  The test suite reads the \<^verbatim>\<open>Location\<close> header of the redirect with \<^verbatim>\<open>new URL(location)\<close>
  and \<^verbatim>\<open>url.searchParams.get(name)\<close>. The functions of this section are that reader for
  the URLs on which it does no more than cut the text, and \<open>None\<close> for every other text:
  \<^item> the text starts with \<^verbatim>\<open>https://\<close>;
  \<^item> the host is made of non-empty labels of lower-case letters separated by dots
    (no port, no credentials, nothing that is rewritten as an address);
  \<^item> the path starts with a slash and holds letters, digits, \<^verbatim>\<open>/\<close>, \<^verbatim>\<open>_\<close> and \<^verbatim>\<open>-\<close> only
    (no dot segments, nothing that is escaped);
  \<^item> after the path the text ends, or a question mark starts the query, which holds only
    the characters \<^verbatim>\<open>URLSearchParams\<close> writes (no fragment, nothing that is escaped).
  The query is split at every \<^verbatim>\<open>&\<close>, each non-empty piece at its first \<^verbatim>\<open>=\<close>; in a name
  and in a value \<^verbatim>\<open>+\<close> is a space and \<^verbatim>\<open>%\<close> with two hexadecimal digits is the byte they
  denote.
\<close>

definition hex_value :: "char \<Rightarrow> nat option" where
  "hex_value c =
     (let n = (of_char c :: nat) in
      if 48 \<le> n \<and> n \<le> 57 then Some (n - 48)
      else if 65 \<le> n \<and> n \<le> 70 then Some (n - 55)
      else if 97 \<le> n \<and> n \<le> 102 then Some (n - 87)
      else None)"

definition plus_to_space :: "char \<Rightarrow> char" where
  "plus_to_space c = (if c = CHR ''+'' then CHR '' '' else c)"

fun form_decode :: "string \<Rightarrow> string" where
  "form_decode (c # h # l # r) =
     (if c = CHR ''%'' then
        (case (hex_value h, hex_value l) of
           (Some a, Some b) \<Rightarrow> char_of (16 * a + b) # form_decode r
         | _ \<Rightarrow> c # form_decode (h # l # r))
      else plus_to_space c # form_decode (h # l # r))"
| "form_decode (c # r) = plus_to_space c # form_decode r"
| "form_decode [] = []"

fun split_on :: "char \<Rightarrow> string \<Rightarrow> string list" where
  "split_on d [] = [[]]"
| "split_on d (c # cs) =
     (if c = d then [] # split_on d cs
      else (case split_on d cs of [] \<Rightarrow> [[c]] | x # xs \<Rightarrow> (c # x) # xs))"

definition parse_pair :: "string \<Rightarrow> string \<times> string" where
  "parse_pair s =
     (form_decode (takeWhile (\<lambda>c. c \<noteq> CHR ''='') s),
      form_decode (drop 1 (dropWhile (\<lambda>c. c \<noteq> CHR ''='') s)))"

definition parse_query :: "string \<Rightarrow> (string \<times> string) list" where
  "parse_query s = map parse_pair (filter (\<lambda>p. p \<noteq> []) (split_on CHR ''&'' s))"

definition host_char :: "char \<Rightarrow> bool" where
  "host_char c \<longleftrightarrow> c \<in> set ''abcdefghijklmnopqrstuvwxyz.''"

definition plain_host :: "string \<Rightarrow> bool" where
  "plain_host h \<longleftrightarrow> list_all (\<lambda>label. label \<noteq> []) (split_on CHR ''.'' h)"

definition path_char :: "char \<Rightarrow> bool" where
  "path_char c \<longleftrightarrow>
     c \<in> set ''abcdefghijklmnopqrstuvwxyzABCDEFGHIJKLMNOPQRSTUVWXYZ0123456789/_-''"

definition query_char :: "char \<Rightarrow> bool" where
  "query_char c \<longleftrightarrow>
     c \<in> set ''abcdefghijklmnopqrstuvwxyzABCDEFGHIJKLMNOPQRSTUVWXYZ0123456789*-._+%&=''"

text \<open>The host, the path and the query of a URL of that kind.\<close>

definition read_url :: "string \<Rightarrow> (string \<times> string \<times> string) option" where
  "read_url u =
     (if take 8 u \<noteq> ''https://'' then None
      else
        (let rest = drop 8 u;
             host = takeWhile host_char rest;
             after_host = dropWhile host_char rest;
             pathname = takeWhile path_char after_host;
             after_path = dropWhile path_char after_host
         in if \<not> plain_host host then None
            else if take 1 pathname \<noteq> ''/'' then None
            else if after_path = [] then Some (host, pathname, [])
            else if take 1 after_path = ''?'' \<and> list_all query_char (drop 1 after_path)
              then Some (host, pathname, drop 1 after_path)
            else None))"

definition url_host :: "string \<Rightarrow> string option" where
  "url_host u = map_option fst (read_url u)"

definition url_pathname :: "string \<Rightarrow> string option" where
  "url_pathname u = map_option (\<lambda>parts. fst (snd parts)) (read_url u)"

definition url_searchParams :: "string \<Rightarrow> (string \<times> string) list option" where
  "url_searchParams u = map_option (\<lambda>parts. parse_query (snd (snd parts))) (read_url u)"

section \<open>The configuration of the test suite\<close>

text \<open>The environment \<^verbatim>\<open>test/index.test.js\<close> sets before it loads the application.\<close>

definition test_config :: config where
  "test_config =
     \<lparr> CLIENT_ID = Some ''test_client_id'',
       CLIENT_SECRET = Some ''test_client_secret'',
       REDIRECT_URI = Some ''http://localhost:3000/callback'' \<rparr>"

section \<open>Facts about the building blocks\<close>

subsection \<open>JSON values and response bodies\<close>

lemma JSON_stringify_finite: "finite_json v \<Longrightarrow> JSON_stringify v = v"
proof (induction v)
  case (JNum n)
  then show ?case by (cases n) auto
next
  case (JArr xs)
  then show ?case by (auto simp: list_all_iff intro: map_idI)
next
  case (JObj kvs)
  then show ?case by (fastforce simp: list_all_iff intro: map_idI)
qed auto

lemma JSON_stringify_q_json [simp]: "JSON_stringify (q_json v) = q_json v"
proof (induction v)
  case (QArr xs)
  then show ?case by (auto intro: map_cong)
next
  case (QObj kvs)
  then show ?case by (fastforce intro: map_cong)
qed auto

lemma map_of_map_values:
  "map_of (map (map_prod id f) kvs) k = map_option f (map_of kvs k)"
  by (induction kvs) auto

lemma status_res_json [simp]: "status (res_json st ps) = st"
  by (simp add: res_json_def)

lemma body_field_res_json [simp]:
  "body_field (res_json st ps) k = map_option JSON_stringify (map_of (own_fields ps) k)"
  by (simp add: res_json_def map_of_map_values)

lemma own_fields_lookup [simp]:
  "map_of (own_fields ((k, v) # r)) k' =
     (if k' = k \<and> v \<noteq> None then v else map_of (own_fields r) k')"
  by (cases v) auto

lemma res_json_is_Json: "\<exists>body. res_json st ps = Json st body"
  by (simp add: res_json_def)

lemma truthy_defined: "truthy v \<Longrightarrow> \<exists>y. v = Some y"
  by (cases v) auto

lemma q_truthy_defined: "q_truthy v \<Longrightarrow> \<exists>y. v = Some y"
  by (cases v) auto

lemma js_or_defined [simp]: "\<exists>y. js_or a (Some d) = Some y"
  by (cases a) (auto simp: js_or_def)

subsection \<open>The token handlers\<close>

lemma callback_reply_null: "callback_reply JNull = Inl (Error (null_property_message ''error''))"
  by (simp add: callback_reply_def get_member_def)

lemma refresh_reply_null: "refresh_reply JNull = Inl (Error (null_property_message ''error''))"
  by (simp add: refresh_reply_def get_member_def)

text \<open>
  The \<^verbatim>\<open>try\<close> block sends nothing when the conversion of its parameter throws, and
  otherwise exactly one request, whose answer decides what the block produces.
\<close>

lemma callback_try_cases:
  "(\<exists>err. q_String_opt code = Inl err \<and> callback_try cfg fetch code = (Inl err, []))
 \<or> (\<exists>str r. q_String_opt code = Inr str
        \<and> callback_try cfg fetch code = (await (fetch r) callback_reply, [r]))"
  by (cases "q_String_opt code") (auto simp: callback_try_def requestSpotifyTokens_def Let_def)

lemma refresh_try_cases:
  "(\<exists>err. q_String_opt tok = Inl err \<and> refresh_try cfg fetch tok = (Inl err, []))
 \<or> (\<exists>str r. q_String_opt tok = Inr str
        \<and> refresh_try cfg fetch tok = (await (fetch r) refresh_reply, [r]))"
  by (cases "q_String_opt tok") (auto simp: refresh_try_def requestSpotifyTokens_def Let_def)

text \<open>
  What a handler answers, by the requests it sent: none, with the answer of a branch that
  makes no call or of the \<^verbatim>\<open>catch\<close> branch after a conversion that threw; or one, with the
  answer of the \<^verbatim>\<open>try\<close>/\<^verbatim>\<open>catch\<close> statement to what the provider returned.
\<close>

lemma callback_handler_sent:
  assumes "callback_handler cfg fetch q = (out, sent)"
  shows "(sent = [] \<and> q_truthy (map_of q ''error''))
       \<or> (sent = [] \<and> \<not> q_truthy (map_of q ''error'') \<and> \<not> q_truthy (map_of q ''code''))
       \<or> (\<exists>err. sent = [] \<and> \<not> q_truthy (map_of q ''error'') \<and> q_truthy (map_of q ''code'')
             \<and> q_String_opt (map_of q ''code'') = Inl err \<and> out = Inr (callback_catch err))
       \<or> (\<exists>str r. sent = [r] \<and> \<not> q_truthy (map_of q ''error'') \<and> q_truthy (map_of q ''code'')
             \<and> q_String_opt (map_of q ''code'') = Inr str
             \<and> out = Inr (try_catch (await (fetch r) callback_reply) callback_catch))"
proof (cases "q_truthy (map_of q ''error'')")
  case True
  with assms show ?thesis
    by (cases "q_String_opt (map_of q ''error'')") (auto simp: callback_handler_def Let_def)
next
  case False
  show ?thesis
  proof (cases "q_truthy (map_of q ''code'')")
    case c: False
    with False assms show ?thesis
      by (auto simp: callback_handler_def Let_def)
  next
    case c: True
    with False assms
    have "(out, sent) = (Inr (try_catch (fst (callback_try cfg fetch (map_of q ''code''))) callback_catch),
        snd (callback_try cfg fetch (map_of q ''code'')))"
      by (simp add: callback_handler_def Let_def case_prod_beta)
    with callback_try_cases [of "map_of q ''code''" cfg fetch] False c show ?thesis
      by (auto simp: try_catch_def)
  qed
qed

lemma refresh_token_handler_sent:
  assumes "refresh_token_handler cfg fetch q = (out, sent)"
  shows "(sent = [] \<and> \<not> q_truthy (map_of q ''refresh_token''))
       \<or> (\<exists>err. sent = [] \<and> q_truthy (map_of q ''refresh_token'')
             \<and> q_String_opt (map_of q ''refresh_token'') = Inl err \<and> out = Inr (refresh_catch err))
       \<or> (\<exists>str r. sent = [r] \<and> q_truthy (map_of q ''refresh_token'')
             \<and> q_String_opt (map_of q ''refresh_token'') = Inr str
             \<and> out = Inr (try_catch (await (fetch r) refresh_reply) refresh_catch))"
proof (cases "q_truthy (map_of q ''refresh_token'')")
  case False
  with assms show ?thesis
    by (auto simp: refresh_token_handler_def Let_def)
next
  case True
  with assms
  have "(out, sent) = (Inr (try_catch (fst (refresh_try cfg fetch (map_of q ''refresh_token''))) refresh_catch),
      snd (refresh_try cfg fetch (map_of q ''refresh_token'')))"
    by (simp add: refresh_token_handler_def Let_def case_prod_beta)
  with refresh_try_cases [of "map_of q ''refresh_token''" cfg fetch] True show ?thesis
    by (auto simp: try_catch_def)
qed

text \<open>The shape and the status of what the \<^verbatim>\<open>catch\<close> branches answer.\<close>

lemma catch_shape:
  "resp = callback_catch err \<or> resp = refresh_catch err \<Longrightarrow>
     (\<exists>body. resp = Json (status resp) body)
   \<and> status resp = 500
   \<and> body_field resp ''success'' = Some (JBool False)
   \<and> body_field resp ''error'' \<noteq> None
   \<and> body_field resp ''message'' \<noteq> None"
  using res_json_is_Json by (auto simp: callback_catch_def refresh_catch_def)

text \<open>The same for the \<^verbatim>\<open>try\<close>/\<^verbatim>\<open>catch\<close> statement once the provider has answered.\<close>

lemma callback_reply_shape:
  assumes "try_catch (await out callback_reply) callback_catch = resp" and "status resp \<noteq> 200"
  shows "(\<exists>body. resp = Json (status resp) body)
       \<and> body_field resp ''success'' = Some (JBool False)
       \<and> body_field resp ''error'' \<noteq> None
       \<and> body_field resp ''message'' \<noteq> None
       \<and> (status resp = 400 \<or> status resp = 500)
       \<and> (status resp = 500 \<longleftrightarrow> (out = Inr JNull \<or> (\<exists>err. out = Inl err)))"
proof (cases out)
  case (Inl err)
  with assms(1) have "resp = callback_catch err"
    by (simp add: try_catch_def await_def)
  with Inl catch_shape [of resp err] show ?thesis by auto
next
  case (Inr data)
  show ?thesis
  proof (cases "data = JNull")
    case True
    with Inr assms(1) have "resp = callback_catch (Error (null_property_message ''error''))"
      by (simp add: try_catch_def await_def callback_reply_null)
    with Inr True catch_shape [of resp] show ?thesis by auto
  next
    case False
    with Inr assms res_json_is_Json show ?thesis
      by (cases "truthy (member data ''error'')")
         (auto simp: try_catch_def await_def callback_reply_def get_member_def dest: truthy_defined)
  qed
qed

lemma refresh_reply_shape:
  assumes "try_catch (await out refresh_reply) refresh_catch = resp" and "status resp \<noteq> 200"
  shows "(\<exists>body. resp = Json (status resp) body)
       \<and> body_field resp ''success'' = Some (JBool False)
       \<and> body_field resp ''error'' \<noteq> None
       \<and> body_field resp ''message'' \<noteq> None
       \<and> (status resp = 400 \<or> status resp = 500)
       \<and> (status resp = 500 \<longleftrightarrow> (out = Inr JNull \<or> (\<exists>err. out = Inl err)))"
proof (cases out)
  case (Inl err)
  with assms(1) have "resp = refresh_catch err"
    by (simp add: try_catch_def await_def)
  with Inl catch_shape [of resp err] show ?thesis by auto
next
  case (Inr data)
  show ?thesis
  proof (cases "data = JNull")
    case True
    with Inr assms(1) have "resp = refresh_catch (Error (null_property_message ''error''))"
      by (simp add: try_catch_def await_def refresh_reply_null)
    with Inr True catch_shape [of resp] show ?thesis by auto
  next
    case False
    with Inr assms res_json_is_Json show ?thesis
      by (cases "truthy (member data ''error'')")
         (auto simp: try_catch_def await_def refresh_reply_def get_member_def dest: truthy_defined)
  qed
qed

text \<open>The answers of the two branches of GET /callback and the one of GET /refresh_token
  that come before the \<^verbatim>\<open>try\<close> block.\<close>

lemma callback_early_shape:
  assumes "callback_handler cfg fetch q = (Inr resp, sent)"
    and "q_truthy (map_of q ''error'') \<or> \<not> q_truthy (map_of q ''code'')"
  shows "(\<exists>body. resp = Json 400 body)
       \<and> status resp = 400
       \<and> body_field resp ''success'' = Some (JBool False)
       \<and> body_field resp ''error'' \<noteq> None
       \<and> body_field resp ''message'' \<noteq> None"
proof (cases "q_truthy (map_of q ''error'')")
  case True
  with assms(1) res_json_is_Json show ?thesis
    by (cases "q_String_opt (map_of q ''error'')")
       (auto simp: callback_handler_def Let_def dest: q_truthy_defined)
next
  case False
  with assms res_json_is_Json show ?thesis
    by (auto simp: callback_handler_def Let_def)
qed

lemma refresh_early_shape:
  assumes "refresh_token_handler cfg fetch q = (Inr resp, sent)"
    and "\<not> q_truthy (map_of q ''refresh_token'')"
  shows "(\<exists>body. resp = Json 400 body)
       \<and> status resp = 400
       \<and> body_field resp ''success'' = Some (JBool False)
       \<and> body_field resp ''error'' \<noteq> None
       \<and> body_field resp ''message'' \<noteq> None"
  using assms res_json_is_Json
  by (auto simp: refresh_token_handler_def Let_def)

text \<open>
  Whatever either token handler answers with a status other than 200 is JSON with
  \<^verbatim>\<open>success:false\<close>, an \<^verbatim>\<open>error\<close> and a \<^verbatim>\<open>message\<close>.
\<close>

lemma token_handler_failure:
  assumes "callback_handler cfg fetch q = (Inr resp, sent)
         \<or> refresh_token_handler cfg fetch q = (Inr resp, sent)"
    and "status resp \<noteq> 200"
  shows "(\<exists>body. resp = Json (status resp) body)
       \<and> body_field resp ''success'' = Some (JBool False)
       \<and> body_field resp ''error'' \<noteq> None
       \<and> body_field resp ''message'' \<noteq> None"
  using assms(1)
proof
  assume c: "callback_handler cfg fetch q = (Inr resp, sent)"
  from callback_handler_sent [OF c] callback_early_shape [OF c]
    catch_shape [of resp] callback_reply_shape [of _ resp] assms(2)
  show ?thesis by (elim disjE exE conjE) auto
next
  assume c: "refresh_token_handler cfg fetch q = (Inr resp, sent)"
  from refresh_token_handler_sent [OF c] refresh_early_shape [OF c]
    catch_shape [of resp] refresh_reply_shape [of _ resp] assms(2)
  show ?thesis by (elim disjE exE conjE) auto
qed

subsection \<open>The guard and the router\<close>

lemma env_truthy_defined: "env_truthy v \<Longrightarrow> \<exists>y. v = Some y"
  by (cases v) auto

lemma require_env_Some: "require_env cfg req = Some r \<Longrightarrow> r = misconfigured"
  by (auto simp: require_env_def split: if_splits)

lemma require_env_configured:
  "env_truthy (CLIENT_ID cfg) \<Longrightarrow> env_truthy (CLIENT_SECRET cfg) \<Longrightarrow>
   env_truthy (REDIRECT_URI cfg) \<Longrightarrow> require_env cfg req = None"
  by (simp add: require_env_def)

lemma misconfigured_fields [simp]:
  "status misconfigured = 500"
  "body_field misconfigured ''success'' = None"
  "body_field misconfigured ''error'' = Some (JStr ''server_misconfigured'')"
  "\<exists>y. body_field misconfigured ''message'' = Some y"
  by (simp_all add: misconfigured_def)

lemma router_cases:
  "router matches cfg w req \<in>
     {(Inr home_handler, []), (Inr (health_handler (clock w)), []),
      (Inr (login_handler cfg (entropy w)), []),
      callback_handler cfg (provider w) (query req),
      refresh_token_handler cfg (provider w) (query req),
      (Inr (not_found req), [])}"
  by (simp add: router_def)

lemma router_not_misconfigured: "fst (router matches cfg w req) \<noteq> Inr misconfigured"
proof
  assume m: "fst (router matches cfg w req) = Inr misconfigured"
  consider (home) "fst (router matches cfg w req) = Inr home_handler"
    | (health) "fst (router matches cfg w req) = Inr (health_handler (clock w))"
    | (login) "fst (router matches cfg w req) = Inr (login_handler cfg (entropy w))"
    | (callback) "router matches cfg w req = callback_handler cfg (provider w) (query req)"
    | (refresh) "router matches cfg w req = refresh_token_handler cfg (provider w) (query req)"
    | (nf) "fst (router matches cfg w req) = Inr (not_found req)"
    using router_cases [of matches cfg w req] by auto
  then show False
  proof cases
    case home
    with m have "status home_handler = status misconfigured" by simp
    then show False by (simp add: home_handler_def)
  next
    case health
    with m have "status (health_handler (clock w)) = status misconfigured" by simp
    then show False by (simp add: health_handler_def)
  next
    case login
    with m have "status (login_handler cfg (entropy w)) = status misconfigured" by simp
    then show False by (simp add: login_handler_def Let_def)
  next
    case callback
    then have "callback_handler cfg (provider w) (query req)
        = (Inr misconfigured, snd (router matches cfg w req))"
      using m by (metis prod.collapse)
    from token_handler_failure [OF disjI1 [OF this]] show False by simp
  next
    case refresh
    then have "refresh_token_handler cfg (provider w) (query req)
        = (Inr misconfigured, snd (router matches cfg w req))"
      using m by (metis prod.collapse)
    from token_handler_failure [OF disjI2 [OF this]] show False by simp
  next
    case nf
    with m have "status (not_found req) = status misconfigured" by simp
    then show False by (simp add: not_found_def)
  qed
qed

text \<open>
  With the configuration set, the application answers a request routed to one of the
  three routes below with what that route's handler answers.
\<close>

lemma app_routed:
  assumes "env_truthy (CLIENT_ID cfg)" "env_truthy (CLIENT_SECRET cfg)"
    "env_truthy (REDIRECT_URI cfg)"
  shows "routed_to matches req ''/login'' \<Longrightarrow>
           app matches cfg w req = (Inr (login_handler cfg (entropy w)), [])"
    and "routed_to matches req ''/callback'' \<Longrightarrow>
           app matches cfg w req = callback_handler cfg (provider w) (query req)"
    and "routed_to matches req ''/refresh_token'' \<Longrightarrow>
           app matches cfg w req = refresh_token_handler cfg (provider w) (query req)"
  using assms
  by (auto simp: app_def require_env_configured router_def routed_to_def routes_def
      split: if_splits)

text \<open>The requests of the test suite are routed by the default path test of Express.\<close>

lemma express_routes:
  "handles_get (req_method req) \<Longrightarrow> path req = ''/login'' \<Longrightarrow>
     routed_to express_match req ''/login''"
  "handles_get (req_method req) \<Longrightarrow> path req = ''/callback'' \<Longrightarrow>
     routed_to express_match req ''/callback''"
  "handles_get (req_method req) \<Longrightarrow> path req = ''/refresh_token'' \<Longrightarrow>
     routed_to express_match req ''/refresh_token''"
  by (simp_all add: routed_to_def routes_def express_match_def lower_def)

subsection \<open>The state value\<close>

lemma hex_digit_inj:
  assumes "i < 16" "j < 16" "hex_digits ! i = hex_digits ! j"
  shows "i = j"
proof -
  have "distinct hex_digits" "length hex_digits = 16"
    by (simp_all add: hex_digits_def)
  with assms show ?thesis
    by (simp add: nth_eq_iff_index_eq)
qed

lemma hex_byte_inj:
  assumes "hex_byte a = hex_byte b"
  shows "a = b"
proof -
  have "unat a < 2 ^ LENGTH(8)" "unat b < 2 ^ LENGTH(8)"
    by (rule unsigned_less)+
  then have la: "unat a < 256" and lb: "unat b < 256"
    by simp_all
  then have "unat a div 16 < 16" "unat b div 16 < 16" by arith+
  moreover have "unat a mod 16 < 16" "unat b mod 16 < 16" by simp_all
  ultimately have "unat a div 16 = unat b div 16" "unat a mod 16 = unat b mod 16"
    using assms hex_digit_inj by (auto simp: hex_byte_def)
  then have "unat a = unat b"
    by (metis div_mult_mod_eq)
  then show ?thesis by (rule unsigned_word_eqI)
qed

lemma length_hex_byte [simp]: "length (hex_byte b) = 2"
  by (simp add: hex_byte_def)

lemma toString_hex_inj: "toString_hex xs = toString_hex ys \<Longrightarrow> xs = ys"
proof (induction xs arbitrary: ys)
  case Nil
  then show ?case
    by (cases ys) (auto simp: toString_hex_def hex_byte_def)
next
  case (Cons x xs)
  show ?case
  proof (cases ys)
    case Nil
    with Cons.prems show ?thesis
      by (auto simp: toString_hex_def hex_byte_def)
  next
    case (Cons y ys')
    with Cons.prems have "hex_byte x @ toString_hex xs = hex_byte y @ toString_hex ys'"
      by (simp add: toString_hex_def)
    then have "hex_byte x = hex_byte y" "toString_hex xs = toString_hex ys'"
      by simp_all
    with Cons.IH hex_byte_inj Cons show ?thesis by auto
  qed
qed

lemma length_toString_hex: "length (toString_hex bs) = 2 * length bs"
  by (induction bs) (simp_all add: toString_hex_def)

lemma length_generateState: "length (generateState rng n) = 2 * n"
  by (simp add: generateState_def randomBytes_def length_toString_hex)

subsection \<open>What URLSearchParams writes, the URL reader reads back\<close>

lemma hex_value_HEX_all: "\<forall>i \<in> set [0..<16]. hex_value (HEX_digits ! i) = Some i"
  by (simp add: upt_rec HEX_digits_def hex_value_def)

lemma hex_value_HEX: "i < 16 \<Longrightarrow> hex_value (HEX_digits ! i) = Some i"
  using hex_value_HEX_all by simp

lemma form_decode_percent: "form_decode (percent_encode c @ r) = c # form_decode r"
proof -
  have "(of_char c :: nat) < 256" by simp
  then have d: "(of_char c :: nat) div 16 < 16" by arith
  have m: "(of_char c :: nat) mod 16 < 16" by simp
  have "16 * ((of_char c :: nat) div 16) + of_char c mod 16 = of_char c"
    by simp
  then show ?thesis
    by (simp add: percent_encode_def hex_value_HEX [OF d] hex_value_HEX [OF m])
qed

lemma form_decode_plain:
  "c \<noteq> CHR ''%'' \<Longrightarrow> form_decode (c # r) = plus_to_space c # form_decode r"
  by (cases "(c # r)" rule: form_decode.cases) auto

lemma form_decode_encode_char: "form_decode (form_encode_char c @ r) = c # form_decode r"
proof (cases "form_safe c")
  case True
  then have "c \<noteq> CHR ''%''" "c \<noteq> CHR ''+''"
    by (auto simp: form_safe_def)
  with True show ?thesis
    by (simp add: form_encode_char_def form_decode_plain plus_to_space_def)
next
  case False
  then show ?thesis
    by (simp add: form_encode_char_def form_decode_plain plus_to_space_def form_decode_percent)
qed

lemma form_decode_encode_append: "form_decode (form_encode s @ r) = s @ form_decode r"
  by (induction s) (simp_all add: form_encode_def form_decode_encode_char)

lemma form_decode_encode [simp]: "form_decode (form_encode s) = s"
  using form_decode_encode_append [of s "[]"] by simp

lemma HEX_digit_no_separator:
  "i < 16 \<Longrightarrow> HEX_digits ! i \<noteq> CHR ''&'' \<and> HEX_digits ! i \<noteq> CHR ''=''"
proof -
  assume "i < 16"
  then have "i < length HEX_digits"
    by (simp add: HEX_digits_def)
  then have "HEX_digits ! i \<in> set HEX_digits"
    by (rule nth_mem)
  then show ?thesis
    by (auto simp: HEX_digits_def)
qed

lemma form_encode_char_no_separator:
  assumes "x \<in> set (form_encode_char c)"
  shows "x \<noteq> CHR ''&'' \<and> x \<noteq> CHR ''=''"
proof -
  have "(of_char c :: nat) < 256" by simp
  then have d: "(of_char c :: nat) div 16 < 16" by arith
  have m: "(of_char c :: nat) mod 16 < 16" by simp
  show ?thesis
  proof (cases "form_safe c")
    case True
    with assms show ?thesis
      by (auto simp: form_encode_char_def form_safe_def)
  next
    case False
    with assms HEX_digit_no_separator [OF d] HEX_digit_no_separator [OF m] show ?thesis
      by (auto simp: form_encode_char_def percent_encode_def split: if_splits)
  qed
qed

lemma form_encode_no_separator:
  "x \<in> set (form_encode s) \<Longrightarrow> x \<noteq> CHR ''&'' \<and> x \<noteq> CHR ''=''"
  by (auto simp: form_encode_def dest: form_encode_char_no_separator)

lemma split_on_no_separator: "d \<notin> set s \<Longrightarrow> split_on d s = [s]"
  by (induction s) auto

lemma split_on_append:
  "d \<notin> set s \<Longrightarrow> split_on d (s @ d # r) = s # split_on d r"
  by (induction s) auto

lemma split_on_join:
  "\<forall>s \<in> set (x # segs). d \<notin> set s \<Longrightarrow> split_on d (join [d] (x # segs)) = x # segs"
proof (induction segs arbitrary: x)
  case Nil
  then show ?case by (simp add: split_on_no_separator)
next
  case (Cons y r)
  then have "split_on d (join [d] (y # r)) = y # r" by simp
  with Cons.prems show ?case by (simp add: split_on_append)
qed

lemma parse_pair_form_pair: "parse_pair (form_pair p) = p"
proof -
  have k: "\<And>x. x \<in> set (form_encode (fst p)) \<Longrightarrow> x \<noteq> CHR ''=''"
    using form_encode_no_separator by blast
  have "takeWhile (\<lambda>c. c \<noteq> CHR ''='') (form_encode (fst p) @ CHR ''='' # form_encode (snd p))
      = form_encode (fst p)"
    using k by (simp add: takeWhile_append2)
  moreover have "dropWhile (\<lambda>c. c \<noteq> CHR ''='') (form_encode (fst p) @ CHR ''='' # form_encode (snd p))
      = CHR ''='' # form_encode (snd p)"
    using k by (simp add: dropWhile_append2)
  ultimately show ?thesis
    by (simp add: parse_pair_def form_pair_def)
qed

lemma form_pair_no_ampersand: "CHR ''&'' \<notin> set (form_pair p)"
  using form_encode_no_separator by (auto simp: form_pair_def)

lemma form_pair_not_empty: "form_pair p \<noteq> []"
  by (simp add: form_pair_def)

lemma parse_query_toString: "parse_query (URLSearchParams_toString ps) = ps"
proof (cases ps)
  case Nil
  then show ?thesis
    by (simp add: parse_query_def URLSearchParams_toString_def)
next
  case (Cons p r)
  then have "split_on CHR ''&'' (join ''&'' (map form_pair ps)) = map form_pair ps"
    using split_on_join [of "form_pair p" "map form_pair r" "CHR ''&''"] form_pair_no_ampersand
    by auto
  moreover have "filter (\<lambda>p. p \<noteq> []) (map form_pair ps) = map form_pair ps"
    by (simp add: form_pair_not_empty filter_id_conv)
  ultimately show ?thesis
    by (simp add: parse_query_def URLSearchParams_toString_def parse_pair_form_pair comp_def)
qed

lemma form_encode_char_query:
  assumes "x \<in> set (form_encode_char c)"
  shows "query_char x"
proof -
  have "(of_char c :: nat) < 256" by simp
  then have "(of_char c :: nat) div 16 < 16" by arith
  moreover have len: "length HEX_digits = 16" by (simp add: HEX_digits_def)
  ultimately have "(of_char c :: nat) div 16 < length HEX_digits" by simp
  then have d: "HEX_digits ! ((of_char c :: nat) div 16) \<in> set HEX_digits"
    by (rule nth_mem)
  have "(of_char c :: nat) mod 16 < length HEX_digits"
    by (simp add: len)
  then have m: "HEX_digits ! ((of_char c :: nat) mod 16) \<in> set HEX_digits"
    by (rule nth_mem)
  have h: "\<And>y. y \<in> set HEX_digits \<Longrightarrow> query_char y"
    by (auto simp: HEX_digits_def query_char_def)
  show ?thesis
  proof (cases "form_safe c")
    case True
    with assms show ?thesis
      by (auto simp: form_encode_char_def form_safe_def query_char_def)
  next
    case False
    with assms h [OF d] h [OF m] show ?thesis
      by (auto simp: form_encode_char_def percent_encode_def query_char_def split: if_splits)
  qed
qed

lemma form_encode_query: "list_all query_char (form_encode s)"
  by (auto simp: form_encode_def list_all_iff dest: form_encode_char_query)

lemma form_pair_query: "list_all query_char (form_pair p)"
  using form_encode_query by (simp add: form_pair_def query_char_def)

lemma join_query:
  "list_all (list_all query_char) segs \<Longrightarrow> list_all query_char (join ''&'' segs)"
  by (induction "''&''" segs rule: join.induct) (simp_all add: query_char_def)

lemma URLSearchParams_toString_query: "list_all query_char (URLSearchParams_toString ps)"
  unfolding URLSearchParams_toString_def
  using form_pair_query by (intro join_query) (auto simp: list_all_iff)

lemma read_authorize_url:
  assumes "list_all query_char s"
  shows "read_url (''https://accounts.spotify.com/authorize?'' @ s)
       = Some (''accounts.spotify.com'', ''/authorize'', s)"
  using assms
  by (simp add: read_url_def host_char_def path_char_def plain_host_def)

subsection \<open>The test configuration and falsy query values\<close>

lemma test_config_set:
  "env_truthy (CLIENT_ID test_config)" "env_truthy (CLIENT_SECRET test_config)"
  "env_truthy (REDIRECT_URI test_config)"
  by (simp_all add: test_config_def)

lemma falsy_converts: "\<not> q_truthy v \<Longrightarrow> \<exists>str. q_String_opt v = Inr str"
proof (cases v)
  case None
  then show ?thesis by simp
next
  case (Some x)
  assume "\<not> q_truthy v"
  with Some show ?thesis by (cases x) auto
qed

section \<open>Provider-reported errors\<close>

text \<open>
  C1, as the code has it. Let \<^verbatim>\<open>CLIENT_ID\<close>, \<^verbatim>\<open>CLIENT_SECRET\<close> and \<^verbatim>\<open>REDIRECT_URI\<close> be set and
  not empty. When the provider answers the request that GET /callback or
  GET /refresh_token sent with a body whose \<^verbatim>\<open>error\<close> property is truthy, the endpoint
  responds with status 400 and the body \<^verbatim>\<open>{success:false, error, message}\<close> and nothing
  else. \<^verbatim>\<open>error\<close> is the provider's \<^verbatim>\<open>error\<close> value; \<^verbatim>\<open>message\<close> is the provider's
  \<^verbatim>\<open>error_description\<close> when that is truthy, and otherwise the fixed text
  \<^verbatim>\<open>Token exchange failed.\<close> (for /callback) or \<^verbatim>\<open>Token refresh failed.\<close> (for /refresh_token).
  Both values are passed on as \<^verbatim>\<open>JSON.stringify\<close> writes them: unchanged, except that a
  number beyond the range of a double, which the parser read as an infinity, is written
  as \<^verbatim>\<open>null\<close> (lemma \<open>JSON_stringify_finite\<close>).
\<close>

theorem provider_error_relayed:
  assumes "env_truthy (CLIENT_ID cfg)" "env_truthy (CLIENT_SECRET cfg)"
    "env_truthy (REDIRECT_URI cfg)"
    and "truthy (member data ''error'')"
  shows "(routed_to matches req ''/callback''
          \<and> app matches cfg w req = (out, [r]) \<and> provider w r = Inr data \<longrightarrow>
           (\<exists>resp. out = Inr resp
            \<and> status resp = 400
            \<and> body_field resp ''success'' = Some (JBool False)
            \<and> body_field resp ''error'' = map_option JSON_stringify (member data ''error'')
            \<and> body_field resp ''message'' =
                (if truthy (member data ''error_description'')
                 then map_option JSON_stringify (member data ''error_description'')
                 else Some (JStr ''Token exchange failed.''))
            \<and> (\<forall>k. k \<notin> set [''success'', ''error'', ''message''] \<longrightarrow> body_field resp k = None)))
       \<and> (routed_to matches req ''/refresh_token''
          \<and> app matches cfg w req = (out, [r]) \<and> provider w r = Inr data \<longrightarrow>
           (\<exists>resp. out = Inr resp
            \<and> status resp = 400
            \<and> body_field resp ''success'' = Some (JBool False)
            \<and> body_field resp ''error'' = map_option JSON_stringify (member data ''error'')
            \<and> body_field resp ''message'' =
                (if truthy (member data ''error_description'')
                 then map_option JSON_stringify (member data ''error_description'')
                 else Some (JStr ''Token refresh failed.''))
            \<and> (\<forall>k. k \<notin> set [''success'', ''error'', ''message''] \<longrightarrow> body_field resp k = None)))"
proof -
  from assms(4) have nn: "data \<noteq> JNull" by auto
  have c: "try_catch (await (Inr data) callback_reply) callback_catch =
      res_json 400
        [(''success'', Some (JBool False)),
         (''error'', member data ''error''),
         (''message'', js_or (member data ''error_description'') (Some (JStr ''Token exchange failed.'')))]"
    using assms(4) nn by (simp add: try_catch_def await_def callback_reply_def get_member_def)
  have f: "try_catch (await (Inr data) refresh_reply) refresh_catch =
      res_json 400
        [(''success'', Some (JBool False)),
         (''error'', member data ''error''),
         (''message'', js_or (member data ''error_description'') (Some (JStr ''Token refresh failed.'')))]"
    using assms(4) nn by (simp add: try_catch_def await_def refresh_reply_def get_member_def)
  have 1: "routed_to matches req ''/callback'' \<Longrightarrow> app matches cfg w req = (out, [r]) \<Longrightarrow>
      provider w r = Inr data \<Longrightarrow>
      out = Inr (try_catch (await (Inr data) callback_reply) callback_catch)"
    using callback_handler_sent [of cfg "provider w" "query req" out "[r]"]
      app_routed(2) [OF assms(1-3), of matches req w]
    by auto
  have 2: "routed_to matches req ''/refresh_token'' \<Longrightarrow> app matches cfg w req = (out, [r]) \<Longrightarrow>
      provider w r = Inr data \<Longrightarrow>
      out = Inr (try_catch (await (Inr data) refresh_reply) refresh_catch)"
    using refresh_token_handler_sent [of cfg "provider w" "query req" out "[r]"]
      app_routed(3) [OF assms(1-3), of matches req w]
    by auto
  show ?thesis
    using 1 2 truthy_defined [OF assms(4)]
    by (auto simp: c f js_or_def dest: truthy_defined)
qed

text \<open>
  The provider answers \<^verbatim>\<open>{"error":"invalid_grant","error_description":"Invalid authorization code"}\<close>
  to the exchange of the code \<^verbatim>\<open>abc\<close>: the description reaches the caller.
\<close>

theorem provider_error_relayed_witness:
  "env_truthy (CLIENT_ID test_config) \<and> env_truthy (CLIENT_SECRET test_config)
   \<and> env_truthy (REDIRECT_URI test_config)
   \<and> truthy (member (JObj [(''error'', JStr ''invalid_grant''),
                         (''error_description'', JStr ''Invalid authorization code'')]) ''error'')
   \<and> routed_to express_match
        \<lparr>req_method = ''GET'', path = ''/callback'', query = [(''code'', QStr ''abc'')]\<rparr> ''/callback''
   \<and> (\<exists>resp. fst (app express_match test_config
          \<lparr>entropy = (\<lambda>i. 0), clock = ''2026-01-01T00:00:00.000Z'',
            provider = (\<lambda>r. Inr (JObj [(''error'', JStr ''invalid_grant''),
                                        (''error_description'', JStr ''Invalid authorization code'')]))\<rparr>
          \<lparr>req_method = ''GET'', path = ''/callback'', query = [(''code'', QStr ''abc'')]\<rparr>) = Inr resp
        \<and> status resp = 400
        \<and> body_field resp ''error'' = Some (JStr ''invalid_grant'')
        \<and> body_field resp ''message'' = Some (JStr ''Invalid authorization code''))"
proof -
  let ?data = "JObj [(''error'', JStr ''invalid_grant''),
                     (''error_description'', JStr ''Invalid authorization code'')]"
  let ?w = "\<lparr>entropy = (\<lambda>i. 0), clock = ''2026-01-01T00:00:00.000Z'', provider = (\<lambda>r. Inr ?data)\<rparr>"
  let ?req = "\<lparr>req_method = ''GET'', path = ''/callback'', query = [(''code'', QStr ''abc'')]\<rparr>"
  let ?out = "app express_match test_config ?w ?req"
  have h: "truthy (member ?data ''error'')" by simp
  have rt: "routed_to express_match ?req ''/callback''"
    by (rule express_routes) (simp_all add: handles_get_def)
  have "?out = callback_handler test_config (provider ?w) (query ?req)"
    by (rule app_routed(2) [OF test_config_set rt])
  then have run: "?out = (fst ?out, [hd (snd ?out)])"
    by (simp add: callback_handler_def callback_try_def requestSpotifyTokens_def Let_def)
  show ?thesis
    using test_config_set h rt run
      provider_error_relayed [OF test_config_set h, of express_match ?req ?w "fst ?out" "hd (snd ?out)"]
    by auto
qed

text \<open>
  The claim as the specification words it fails, with the configuration set, on two bodies
  that have an \<^verbatim>\<open>error\<close> field. To \<^verbatim>\<open>{"error":"invalid_grant"}\<close>, which has no description,
  GET /callback answers with a message of its own. To
  \<^verbatim>\<open>{"error":"","error_description":"bad token"}\<close> GET /refresh_token answers with status 200.
\<close>

theorem provider_error_description_counterexample:
  "fst (app express_match test_config
      \<lparr>entropy = (\<lambda>i. 0), clock = ''2026-01-01T00:00:00.000Z'',
        provider = (\<lambda>r. Inr (JObj [(''error'', JStr ''invalid_grant'')]))\<rparr>
      \<lparr>req_method = ''GET'', path = ''/callback'', query = [(''code'', QStr ''abc'')]\<rparr>)
     = Inr (Json 400 (JObj [(''success'', JBool False),
                            (''error'', JStr ''invalid_grant''),
                            (''message'', JStr ''Token exchange failed.'')]))
   \<and> fst (app express_match test_config
      \<lparr>entropy = (\<lambda>i. 0), clock = ''2026-01-01T00:00:00.000Z'',
        provider = (\<lambda>r. Inr (JObj [(''error'', JStr []), (''error_description'', JStr ''bad token'')]))\<rparr>
      \<lparr>req_method = ''GET'', path = ''/refresh_token'', query = [(''refresh_token'', QStr ''abc'')]\<rparr>)
     = Inr (Json 200 (JObj [(''success'', JBool True)]))"
proof -
  have rt1: "routed_to express_match
      \<lparr>req_method = ''GET'', path = ''/callback'', query = [(''code'', QStr ''abc'')]\<rparr> ''/callback''"
    by (rule express_routes) (simp_all add: handles_get_def)
  have rt2: "routed_to express_match
      \<lparr>req_method = ''GET'', path = ''/refresh_token'', query = [(''refresh_token'', QStr ''abc'')]\<rparr>
      ''/refresh_token''"
    by (rule express_routes) (simp_all add: handles_get_def)
  show ?thesis
    by (simp add: app_routed(2) [OF test_config_set rt1] app_routed(3) [OF test_config_set rt2]
        callback_handler_def callback_try_def refresh_token_handler_def refresh_try_def
        requestSpotifyTokens_def Let_def try_catch_def await_def callback_reply_def
        refresh_reply_def get_member_def js_or_def res_json_def)
qed

section \<open>Failure responses of the token endpoints\<close>

text \<open>
  C2, as the code has it. Let \<^verbatim>\<open>CLIENT_ID\<close>, \<^verbatim>\<open>CLIENT_SECRET\<close> and \<^verbatim>\<open>REDIRECT_URI\<close> be set and
  not empty. Every response of GET /callback and of GET /refresh_token whose status is
  not 200 is JSON of the shape \<^verbatim>\<open>{success:false, error, message}\<close> (with \<^verbatim>\<open>state\<close> besides in
  the relay of an authorization error) and has status 400 or 500. The status is 500
  exactly when the \<^verbatim>\<open>try\<close> block threw: either converting the \<^verbatim>\<open>code\<close> (the
  \<^verbatim>\<open>refresh_token\<close>) to a string for the form body threw, and then no request was sent, or
  the one request sent was rejected, its body could not be parsed, or its body was
  \<^verbatim>\<open>null\<close>. Every other failure has status 400.
\<close>

theorem token_endpoint_failure_shape:
  assumes "env_truthy (CLIENT_ID cfg)" "env_truthy (CLIENT_SECRET cfg)"
    "env_truthy (REDIRECT_URI cfg)"
    and "app matches cfg w req = (Inr resp, sent)" and "status resp \<noteq> 200"
  shows "(routed_to matches req ''/callback'' \<longrightarrow>
           (\<exists>body. resp = Json (status resp) body)
         \<and> body_field resp ''success'' = Some (JBool False)
         \<and> body_field resp ''error'' \<noteq> None
         \<and> body_field resp ''message'' \<noteq> None
         \<and> (status resp = 400 \<or> status resp = 500)
         \<and> (status resp = 500 \<longleftrightarrow>
              (sent = [] \<and> \<not> q_truthy (map_of (query req) ''error'')
                 \<and> (\<exists>err. q_String_opt (map_of (query req) ''code'') = Inl err))
            \<or> (\<exists>r. sent = [r] \<and> (provider w r = Inr JNull \<or> (\<exists>err. provider w r = Inl err)))))
       \<and> (routed_to matches req ''/refresh_token'' \<longrightarrow>
           (\<exists>body. resp = Json (status resp) body)
         \<and> body_field resp ''success'' = Some (JBool False)
         \<and> body_field resp ''error'' \<noteq> None
         \<and> body_field resp ''message'' \<noteq> None
         \<and> (status resp = 400 \<or> status resp = 500)
         \<and> (status resp = 500 \<longleftrightarrow>
              (sent = [] \<and> (\<exists>err. q_String_opt (map_of (query req) ''refresh_token'') = Inl err))
            \<or> (\<exists>r. sent = [r] \<and> (provider w r = Inr JNull \<or> (\<exists>err. provider w r = Inl err)))))"
proof -
  have cb: "routed_to matches req ''/callback'' \<longrightarrow>
           (\<exists>body. resp = Json (status resp) body)
         \<and> body_field resp ''success'' = Some (JBool False)
         \<and> body_field resp ''error'' \<noteq> None
         \<and> body_field resp ''message'' \<noteq> None
         \<and> (status resp = 400 \<or> status resp = 500)
         \<and> (status resp = 500 \<longleftrightarrow>
              (sent = [] \<and> \<not> q_truthy (map_of (query req) ''error'')
                 \<and> (\<exists>err. q_String_opt (map_of (query req) ''code'') = Inl err))
            \<or> (\<exists>r. sent = [r] \<and> (provider w r = Inr JNull \<or> (\<exists>err. provider w r = Inl err))))"
  proof (rule impI)
  assume rt: "routed_to matches req ''/callback''"
  let ?q = "query req"
  from assms(4) app_routed(2) [OF assms(1-3) rt, of w]
  have h: "callback_handler cfg (provider w) ?q = (Inr resp, sent)" by simp
  show "(\<exists>body. resp = Json (status resp) body)
         \<and> body_field resp ''success'' = Some (JBool False)
         \<and> body_field resp ''error'' \<noteq> None
         \<and> body_field resp ''message'' \<noteq> None
         \<and> (status resp = 400 \<or> status resp = 500)
         \<and> (status resp = 500 \<longleftrightarrow>
              (sent = [] \<and> \<not> q_truthy (map_of ?q ''error'')
                 \<and> (\<exists>err. q_String_opt (map_of ?q ''code'') = Inl err))
            \<or> (\<exists>r. sent = [r] \<and> (provider w r = Inr JNull \<or> (\<exists>err. provider w r = Inl err))))"
  proof -
    consider (early) "sent = []" "q_truthy (map_of ?q ''error'') \<or> \<not> q_truthy (map_of ?q ''code'')"
      | (threw) err where "sent = []" "\<not> q_truthy (map_of ?q ''error'')"
          "q_String_opt (map_of ?q ''code'') = Inl err" "resp = callback_catch err"
      | (called) str r where "sent = [r]" "q_String_opt (map_of ?q ''code'') = Inr str"
          "resp = try_catch (await (provider w r) callback_reply) callback_catch"
      using callback_handler_sent [OF h] by auto
    then show ?thesis
    proof cases
      case early
      from early(2) have "q_truthy (map_of ?q ''error'')
          \<or> (\<exists>str. q_String_opt (map_of ?q ''code'') = Inr str)"
        using falsy_converts by blast
      with callback_early_shape [OF h early(2)] early(1) show ?thesis by auto
    next
      case threw
      with catch_shape [of resp err] show ?thesis by auto
    next
      case called
      with callback_reply_shape [of "provider w r" resp] assms(5) show ?thesis by auto
    qed
  qed
qed
  have rf: "routed_to matches req ''/refresh_token'' \<longrightarrow>
           (\<exists>body. resp = Json (status resp) body)
         \<and> body_field resp ''success'' = Some (JBool False)
         \<and> body_field resp ''error'' \<noteq> None
         \<and> body_field resp ''message'' \<noteq> None
         \<and> (status resp = 400 \<or> status resp = 500)
         \<and> (status resp = 500 \<longleftrightarrow>
              (sent = [] \<and> (\<exists>err. q_String_opt (map_of (query req) ''refresh_token'') = Inl err))
            \<or> (\<exists>r. sent = [r] \<and> (provider w r = Inr JNull \<or> (\<exists>err. provider w r = Inl err))))"
  proof (rule impI)
  assume rt: "routed_to matches req ''/refresh_token''"
  let ?q = "query req"
  from assms(4) app_routed(3) [OF assms(1-3) rt, of w]
  have h: "refresh_token_handler cfg (provider w) ?q = (Inr resp, sent)" by simp
  show "(\<exists>body. resp = Json (status resp) body)
         \<and> body_field resp ''success'' = Some (JBool False)
         \<and> body_field resp ''error'' \<noteq> None
         \<and> body_field resp ''message'' \<noteq> None
         \<and> (status resp = 400 \<or> status resp = 500)
         \<and> (status resp = 500 \<longleftrightarrow>
              (sent = [] \<and> (\<exists>err. q_String_opt (map_of ?q ''refresh_token'') = Inl err))
            \<or> (\<exists>r. sent = [r] \<and> (provider w r = Inr JNull \<or> (\<exists>err. provider w r = Inl err))))"
  proof -
    consider (early) "sent = []" "\<not> q_truthy (map_of ?q ''refresh_token'')"
      | (threw) err where "sent = []"
          "q_String_opt (map_of ?q ''refresh_token'') = Inl err" "resp = refresh_catch err"
      | (called) str r where "sent = [r]" "q_String_opt (map_of ?q ''refresh_token'') = Inr str"
          "resp = try_catch (await (provider w r) refresh_reply) refresh_catch"
      using refresh_token_handler_sent [OF h] by auto
    then show ?thesis
    proof cases
      case early
      from early(2) have "\<exists>str. q_String_opt (map_of ?q ''refresh_token'') = Inr str"
        by (rule falsy_converts)
      with refresh_early_shape [OF h early(2)] early(1) show ?thesis by auto
    next
      case threw
      with catch_shape [of resp err] show ?thesis by auto
    next
      case called
      with refresh_reply_shape [of "provider w r" resp] assms(5) show ?thesis by auto
    qed
  qed
qed
  from cb rf show ?thesis by (rule conjI)
qed

text \<open>The connection to the provider is refused while a code is exchanged.\<close>

theorem token_endpoint_failure_shape_witness:
  "env_truthy (CLIENT_ID test_config) \<and> env_truthy (CLIENT_SECRET test_config)
   \<and> env_truthy (REDIRECT_URI test_config)
   \<and> routed_to express_match
        \<lparr>req_method = ''GET'', path = ''/callback'', query = [(''code'', QStr ''abc'')]\<rparr> ''/callback''
   \<and> (\<exists>resp. fst (app express_match test_config
          \<lparr>entropy = (\<lambda>i. 0), clock = ''2026-01-01T00:00:00.000Z'',
            provider = (\<lambda>r. Inl (Error ''ECONNREFUSED''))\<rparr>
          \<lparr>req_method = ''GET'', path = ''/callback'', query = [(''code'', QStr ''abc'')]\<rparr>) = Inr resp
        \<and> status resp \<noteq> 200
        \<and> status resp = 500
        \<and> body_field resp ''success'' = Some (JBool False))"
proof -
  let ?w = "\<lparr>entropy = (\<lambda>i. 0), clock = ''2026-01-01T00:00:00.000Z'',
             provider = (\<lambda>r. Inl (Error ''ECONNREFUSED''))\<rparr>"
  let ?req = "\<lparr>req_method = ''GET'', path = ''/callback'', query = [(''code'', QStr ''abc'')]\<rparr>"
  let ?out = "app express_match test_config ?w ?req"
  let ?resp = "callback_catch (Error ''ECONNREFUSED'')"
  have rt: "routed_to express_match ?req ''/callback''"
    by (rule express_routes) (simp_all add: handles_get_def)
  have "?out = callback_handler test_config (provider ?w) (query ?req)"
    by (rule app_routed(2) [OF test_config_set rt])
  then have run: "?out = (Inr ?resp, snd ?out)"
    by (simp add: callback_handler_def callback_try_def requestSpotifyTokens_def Let_def
        try_catch_def await_def)
  have st: "status ?resp \<noteq> 200" by (simp add: callback_catch_def)
  have one: "\<exists>r. snd ?out = [r] \<and> (provider ?w r = Inr JNull \<or> (\<exists>err. provider ?w r = Inl err))"
    using \<open>?out = callback_handler test_config (provider ?w) (query ?req)\<close>
    by (simp add: callback_handler_def callback_try_def requestSpotifyTokens_def Let_def)
  from token_endpoint_failure_shape [OF test_config_set run st] rt one
  have "status ?resp = 500 \<and> body_field ?resp ''success'' = Some (JBool False)"
    by blast
  with test_config_set rt run st show ?thesis
    by (metis fst_conv)
qed

text \<open>
  The claim as the specification words it, that no failure of the two endpoints has a
  status other than 400, fails on that same input: both endpoints answer it with 500.
\<close>

theorem transport_failure_500_counterexample:
  "fst (app express_match test_config
      \<lparr>entropy = (\<lambda>i. 0), clock = ''2026-01-01T00:00:00.000Z'',
        provider = (\<lambda>r. Inl (Error ''ECONNREFUSED''))\<rparr>
      \<lparr>req_method = ''GET'', path = ''/callback'', query = [(''code'', QStr ''abc'')]\<rparr>)
     = Inr (Json 500 (JObj [(''success'', JBool False),
                            (''error'', JStr ''token_exchange_error''),
                            (''message'', JStr ''ECONNREFUSED'')]))
   \<and> fst (app express_match test_config
      \<lparr>entropy = (\<lambda>i. 0), clock = ''2026-01-01T00:00:00.000Z'',
        provider = (\<lambda>r. Inl (Error ''ECONNREFUSED''))\<rparr>
      \<lparr>req_method = ''GET'', path = ''/refresh_token'', query = [(''refresh_token'', QStr ''abc'')]\<rparr>)
     = Inr (Json 500 (JObj [(''success'', JBool False),
                            (''error'', JStr ''refresh_token_error''),
                            (''message'', JStr ''ECONNREFUSED'')]))"
proof -
  have rt1: "routed_to express_match
      \<lparr>req_method = ''GET'', path = ''/callback'', query = [(''code'', QStr ''abc'')]\<rparr> ''/callback''"
    by (rule express_routes) (simp_all add: handles_get_def)
  have rt2: "routed_to express_match
      \<lparr>req_method = ''GET'', path = ''/refresh_token'', query = [(''refresh_token'', QStr ''abc'')]\<rparr>
      ''/refresh_token''"
    by (rule express_routes) (simp_all add: handles_get_def)
  show ?thesis
    by (simp add: app_routed(2) [OF test_config_set rt1] app_routed(3) [OF test_config_set rt2]
        callback_handler_def callback_try_def refresh_token_handler_def refresh_try_def
        requestSpotifyTokens_def Let_def try_catch_def await_def callback_catch_def
        refresh_catch_def res_json_def)
qed

section \<open>Client input errors\<close>

text \<open>
  C6, as the code has it. Let \<^verbatim>\<open>CLIENT_ID\<close>, \<^verbatim>\<open>CLIENT_SECRET\<close> and \<^verbatim>\<open>REDIRECT_URI\<close> be set and
  not empty. The application answers a GET /callback request whose query has neither
  \<^verbatim>\<open>error\<close> nor \<^verbatim>\<open>code\<close> with status 400 and the body
  \<^verbatim>\<open>{success:false, error:"missing_code", message}\<close>, and a GET /refresh_token request whose
  query has no \<^verbatim>\<open>refresh_token\<close> with status 400 and
  \<^verbatim>\<open>{success:false, error:"missing_refresh_token", message}\<close>. In both cases it sends no
  request to the provider.
\<close>

theorem missing_parameter_400:
  assumes "env_truthy (CLIENT_ID cfg)" "env_truthy (CLIENT_SECRET cfg)"
    "env_truthy (REDIRECT_URI cfg)"
  shows "(routed_to matches req ''/callback''
          \<and> map_of (query req) ''error'' = None \<and> map_of (query req) ''code'' = None \<longrightarrow>
          app matches cfg w req =
            (Inr (Json 400 (JObj
               [(''success'', JBool False),
                (''error'', JStr ''missing_code''),
                (''message'', JStr ''No authorization code was returned by Spotify.'')])),
             []))
       \<and> (routed_to matches req ''/refresh_token''
          \<and> map_of (query req) ''refresh_token'' = None \<longrightarrow>
          app matches cfg w req =
            (Inr (Json 400 (JObj
               [(''success'', JBool False),
                (''error'', JStr ''missing_refresh_token''),
                (''message'', JStr (''Query parameter '' @ [CHR 0x22] @ ''refresh_token''
                                    @ [CHR 0x22] @ '' is required.''))])),
             []))"
  using app_routed(2) [OF assms, of matches req w] app_routed(3) [OF assms, of matches req w]
  by (simp add: callback_handler_def refresh_token_handler_def res_json_def)

text \<open>The two requests of the test suite that carry no query at all.\<close>

theorem missing_parameter_400_witness:
  "env_truthy (CLIENT_ID test_config) \<and> env_truthy (CLIENT_SECRET test_config)
   \<and> env_truthy (REDIRECT_URI test_config)
   \<and> routed_to express_match \<lparr>req_method = ''GET'', path = ''/callback'', query = []\<rparr> ''/callback''
   \<and> routed_to express_match \<lparr>req_method = ''GET'', path = ''/refresh_token'', query = []\<rparr>
        ''/refresh_token''
   \<and> app express_match test_config
        \<lparr>entropy = (\<lambda>i. 0), clock = ''2026-01-01T00:00:00.000Z'', provider = (\<lambda>r. Inr JNull)\<rparr>
        \<lparr>req_method = ''GET'', path = ''/callback'', query = []\<rparr>
      = (Inr (Json 400 (JObj
           [(''success'', JBool False),
            (''error'', JStr ''missing_code''),
            (''message'', JStr ''No authorization code was returned by Spotify.'')])), [])
   \<and> app express_match test_config
        \<lparr>entropy = (\<lambda>i. 0), clock = ''2026-01-01T00:00:00.000Z'', provider = (\<lambda>r. Inr JNull)\<rparr>
        \<lparr>req_method = ''GET'', path = ''/refresh_token'', query = []\<rparr>
      = (Inr (Json 400 (JObj
           [(''success'', JBool False),
            (''error'', JStr ''missing_refresh_token''),
            (''message'', JStr (''Query parameter '' @ [CHR 0x22] @ ''refresh_token''
                                @ [CHR 0x22] @ '' is required.''))])), [])"
proof -
  let ?w = "\<lparr>entropy = (\<lambda>i. 0), clock = ''2026-01-01T00:00:00.000Z'', provider = (\<lambda>r. Inr JNull)\<rparr>"
  have rt1: "routed_to express_match \<lparr>req_method = ''GET'', path = ''/callback'', query = []\<rparr>
      ''/callback''"
    by (rule express_routes) (simp_all add: handles_get_def)
  have rt2: "routed_to express_match \<lparr>req_method = ''GET'', path = ''/refresh_token'', query = []\<rparr>
      ''/refresh_token''"
    by (rule express_routes) (simp_all add: handles_get_def)
  show ?thesis
    using test_config_set rt1 rt2
      missing_parameter_400 [OF test_config_set, of express_match
        "\<lparr>req_method = ''GET'', path = ''/callback'', query = []\<rparr>" ?w]
      missing_parameter_400 [OF test_config_set, of express_match
        "\<lparr>req_method = ''GET'', path = ''/refresh_token'', query = []\<rparr>" ?w]
    by simp
qed

text \<open>
  The claim as the specification words it fails when a variable is missing: the guard
  answers both requests with 500 \<^verbatim>\<open>server_misconfigured\<close>.
\<close>

theorem unconfigured_missing_parameter_counterexample:
  "map_of ([] :: (string \<times> qval) list) ''error'' = None
   \<and> map_of ([] :: (string \<times> qval) list) ''code'' = None
   \<and> fst (app express_match
        \<lparr>CLIENT_ID = Some ''test_client_id'', CLIENT_SECRET = None,
          REDIRECT_URI = Some ''http://localhost:3000/callback''\<rparr>
        \<lparr>entropy = (\<lambda>i. 0), clock = ''2026-01-01T00:00:00.000Z'', provider = (\<lambda>r. Inr JNull)\<rparr>
        \<lparr>req_method = ''GET'', path = ''/callback'', query = []\<rparr>)
      = Inr (Json 500 (JObj
          [(''error'', JStr ''server_misconfigured''),
           (''message'', JStr ''SPOTIFY_CLIENT_ID, SPOTIFY_CLIENT_SECRET, and SPOTIFY_REDIRECT_URI must be set in environment variables.'')]))
   \<and> fst (app express_match
        \<lparr>CLIENT_ID = Some ''test_client_id'', CLIENT_SECRET = None,
          REDIRECT_URI = Some ''http://localhost:3000/callback''\<rparr>
        \<lparr>entropy = (\<lambda>i. 0), clock = ''2026-01-01T00:00:00.000Z'', provider = (\<lambda>r. Inr JNull)\<rparr>
        \<lparr>req_method = ''GET'', path = ''/refresh_token'', query = []\<rparr>)
      = Inr (Json 500 (JObj
          [(''error'', JStr ''server_misconfigured''),
           (''message'', JStr ''SPOTIFY_CLIENT_ID, SPOTIFY_CLIENT_SECRET, and SPOTIFY_REDIRECT_URI must be set in environment variables.'')]))"
  by (simp add: app_def require_env_def misconfigured_def res_json_def)

section \<open>Relayed token responses\<close>

text \<open>
  C8, as the code has it. Let \<^verbatim>\<open>CLIENT_ID\<close>, \<^verbatim>\<open>CLIENT_SECRET\<close> and \<^verbatim>\<open>REDIRECT_URI\<close> be set and
  not empty. When the provider answers the request that GET /callback or
  GET /refresh_token sent with a body that is not \<^verbatim>\<open>null\<close> and whose \<^verbatim>\<open>error\<close> property is
  absent or falsy, the response has status 200 and its body has \<^verbatim>\<open>success:true\<close> and, of
  the provider's body, the properties \<^verbatim>\<open>access_token\<close>, \<^verbatim>\<open>token_type\<close>, \<^verbatim>\<open>scope\<close>,
  \<^verbatim>\<open>expires_in\<close> and \<^verbatim>\<open>refresh_token\<close>, each absent when the provider's body has none;
  GET /refresh_token leaves \<^verbatim>\<open>refresh_token\<close> out also when its value is falsy. Each value
  is passed on as \<^verbatim>\<open>JSON.stringify\<close> writes it: unchanged, except that a number beyond the
  range of a double, which the parser read as an infinity, is written as \<^verbatim>\<open>null\<close> (lemma
  \<open>JSON_stringify_finite\<close>). No other property of the provider's body is relayed.
\<close>

theorem success_relays_token_fields:
  assumes "env_truthy (CLIENT_ID cfg)" "env_truthy (CLIENT_SECRET cfg)"
    "env_truthy (REDIRECT_URI cfg)"
    and "data \<noteq> JNull" and "\<not> truthy (member data ''error'')"
  shows "(routed_to matches req ''/callback''
          \<and> app matches cfg w req = (out, [r]) \<and> provider w r = Inr data \<longrightarrow>
           (\<exists>resp. out = Inr resp
            \<and> status resp = 200
            \<and> body_field resp ''success'' = Some (JBool True)
            \<and> (\<forall>k \<in> set [''access_token'', ''token_type'', ''scope'', ''expires_in'', ''refresh_token''].
                  body_field resp k = map_option JSON_stringify (member data k))
            \<and> (\<forall>k. k \<notin> set [''success'', ''access_token'', ''token_type'', ''scope'', ''expires_in'',
                               ''refresh_token''] \<longrightarrow> body_field resp k = None)))
       \<and> (routed_to matches req ''/refresh_token''
          \<and> app matches cfg w req = (out, [r]) \<and> provider w r = Inr data \<longrightarrow>
           (\<exists>resp. out = Inr resp
            \<and> status resp = 200
            \<and> body_field resp ''success'' = Some (JBool True)
            \<and> (\<forall>k \<in> set [''access_token'', ''token_type'', ''scope'', ''expires_in''].
                  body_field resp k = map_option JSON_stringify (member data k))
            \<and> body_field resp ''refresh_token'' =
                (if truthy (member data ''refresh_token'')
                 then map_option JSON_stringify (member data ''refresh_token'') else None)
            \<and> (\<forall>k. k \<notin> set [''success'', ''access_token'', ''token_type'', ''scope'', ''expires_in'',
                               ''refresh_token''] \<longrightarrow> body_field resp k = None)))"
proof -
  have c: "try_catch (await (Inr data) callback_reply) callback_catch =
      res_json 200
        [(''success'', Some (JBool True)),
         (''access_token'', member data ''access_token''),
         (''token_type'', member data ''token_type''),
         (''scope'', member data ''scope''),
         (''expires_in'', member data ''expires_in''),
         (''refresh_token'', member data ''refresh_token'')]"
    using assms(4,5) by (simp add: try_catch_def await_def callback_reply_def get_member_def)
  have f: "try_catch (await (Inr data) refresh_reply) refresh_catch =
      res_json 200
        ([(''success'', Some (JBool True)),
          (''access_token'', member data ''access_token''),
          (''token_type'', member data ''token_type''),
          (''scope'', member data ''scope''),
          (''expires_in'', member data ''expires_in'')]
         @ (if truthy (member data ''refresh_token'')
            then [(''refresh_token'', member data ''refresh_token'')] else []))"
    using assms(4,5) by (simp add: try_catch_def await_def refresh_reply_def get_member_def)
  have 1: "routed_to matches req ''/callback'' \<Longrightarrow> app matches cfg w req = (out, [r]) \<Longrightarrow>
      provider w r = Inr data \<Longrightarrow>
      out = Inr (try_catch (await (Inr data) callback_reply) callback_catch)"
    using callback_handler_sent [of cfg "provider w" "query req" out "[r]"]
      app_routed(2) [OF assms(1-3), of matches req w]
    by auto
  have 2: "routed_to matches req ''/refresh_token'' \<Longrightarrow> app matches cfg w req = (out, [r]) \<Longrightarrow>
      provider w r = Inr data \<Longrightarrow>
      out = Inr (try_catch (await (Inr data) refresh_reply) refresh_catch)"
    using refresh_token_handler_sent [of cfg "provider w" "query req" out "[r]"]
      app_routed(3) [OF assms(1-3), of matches req w]
    by auto
  have cb: "routed_to matches req ''/callback''
          \<and> app matches cfg w req = (out, [r]) \<and> provider w r = Inr data \<longrightarrow>
           (\<exists>resp. out = Inr resp
            \<and> status resp = 200
            \<and> body_field resp ''success'' = Some (JBool True)
            \<and> (\<forall>k \<in> set [''access_token'', ''token_type'', ''scope'', ''expires_in'', ''refresh_token''].
                  body_field resp k = map_option JSON_stringify (member data k))
            \<and> (\<forall>k. k \<notin> set [''success'', ''access_token'', ''token_type'', ''scope'', ''expires_in'',
                               ''refresh_token''] \<longrightarrow> body_field resp k = None))"
    using 1 by (auto simp: c)
  have rf: "routed_to matches req ''/refresh_token''
          \<and> app matches cfg w req = (out, [r]) \<and> provider w r = Inr data \<longrightarrow>
           (\<exists>resp. out = Inr resp
            \<and> status resp = 200
            \<and> body_field resp ''success'' = Some (JBool True)
            \<and> (\<forall>k \<in> set [''access_token'', ''token_type'', ''scope'', ''expires_in''].
                  body_field resp k = map_option JSON_stringify (member data k))
            \<and> body_field resp ''refresh_token'' =
                (if truthy (member data ''refresh_token'')
                 then map_option JSON_stringify (member data ''refresh_token'') else None)
            \<and> (\<forall>k. k \<notin> set [''success'', ''access_token'', ''token_type'', ''scope'', ''expires_in'',
                               ''refresh_token''] \<longrightarrow> body_field resp k = None))"
    using 2 by (auto simp: f dest: truthy_defined)
  from cb rf show ?thesis by (rule conjI)
qed

text \<open>
  A refresh to which the provider answers without a new refresh token, and with a
  lifetime beyond the range of a double.
\<close>

theorem success_relays_token_fields_witness:
  "env_truthy (CLIENT_ID test_config) \<and> env_truthy (CLIENT_SECRET test_config)
   \<and> env_truthy (REDIRECT_URI test_config)
   \<and> JObj [(''access_token'', JStr ''BQD''), (''token_type'', JStr ''Bearer''), (''expires_in'', JNum PosInf)]
       \<noteq> JNull
   \<and> \<not> truthy (member (JObj [(''access_token'', JStr ''BQD''), (''token_type'', JStr ''Bearer''),
                              (''expires_in'', JNum PosInf)]) ''error'')
   \<and> routed_to express_match
        \<lparr>req_method = ''GET'', path = ''/refresh_token'', query = [(''refresh_token'', QStr ''AQC'')]\<rparr>
        ''/refresh_token''
   \<and> (\<exists>resp. fst (app express_match test_config
          \<lparr>entropy = (\<lambda>i. 0), clock = ''2026-01-01T00:00:00.000Z'',
            provider = (\<lambda>r. Inr (JObj [(''access_token'', JStr ''BQD''), (''token_type'', JStr ''Bearer''),
                                        (''expires_in'', JNum PosInf)]))\<rparr>
          \<lparr>req_method = ''GET'', path = ''/refresh_token'', query = [(''refresh_token'', QStr ''AQC'')]\<rparr>)
          = Inr resp
        \<and> status resp = 200
        \<and> body_field resp ''access_token'' = Some (JStr ''BQD'')
        \<and> body_field resp ''expires_in'' = Some JNull
        \<and> body_field resp ''refresh_token'' = None)"
proof -
  let ?data = "JObj [(''access_token'', JStr ''BQD''), (''token_type'', JStr ''Bearer''),
                     (''expires_in'', JNum PosInf)]"
  let ?w = "\<lparr>entropy = (\<lambda>i. 0), clock = ''2026-01-01T00:00:00.000Z'', provider = (\<lambda>r. Inr ?data)\<rparr>"
  let ?req = "\<lparr>req_method = ''GET'', path = ''/refresh_token'', query = [(''refresh_token'', QStr ''AQC'')]\<rparr>"
  let ?out = "app express_match test_config ?w ?req"
  have h1: "?data \<noteq> JNull" by simp
  have h2: "\<not> truthy (member ?data ''error'')" by simp
  have rt: "routed_to express_match ?req ''/refresh_token''"
    by (rule express_routes) (simp_all add: handles_get_def)
  have "?out = refresh_token_handler test_config (provider ?w) (query ?req)"
    by (rule app_routed(3) [OF test_config_set rt])
  then have run: "?out = (fst ?out, [hd (snd ?out)])"
    by (simp add: refresh_token_handler_def refresh_try_def requestSpotifyTokens_def Let_def)
  show ?thesis
    using test_config_set h1 h2 rt run
      success_relays_token_fields [OF test_config_set h1 h2, of express_match ?req ?w
        "fst ?out" "hd (snd ?out)"]
    by auto
qed

text \<open>
  The claim as the specification words it, that every field of the provider's body
  appears in the response, fails with the configuration set on a body with a field the
  handler does not name: \<^verbatim>\<open>{"access_token":"BQD","id_token":"eyJ"}\<close> has no \<^verbatim>\<open>error\<close>, the
  response has status 200, and \<^verbatim>\<open>id_token\<close> is not in it.
\<close>

theorem unlisted_field_dropped_counterexample:
  "member (JObj [(''access_token'', JStr ''BQD''), (''id_token'', JStr ''eyJ'')]) ''error'' = None
   \<and> fst (app express_match test_config
        \<lparr>entropy = (\<lambda>i. 0), clock = ''2026-01-01T00:00:00.000Z'',
          provider = (\<lambda>r. Inr (JObj [(''access_token'', JStr ''BQD''), (''id_token'', JStr ''eyJ'')]))\<rparr>
        \<lparr>req_method = ''GET'', path = ''/callback'', query = [(''code'', QStr ''abc'')]\<rparr>)
      = Inr (Json 200 (JObj [(''success'', JBool True), (''access_token'', JStr ''BQD'')]))"
proof -
  have rt: "routed_to express_match
      \<lparr>req_method = ''GET'', path = ''/callback'', query = [(''code'', QStr ''abc'')]\<rparr> ''/callback''"
    by (rule express_routes) (simp_all add: handles_get_def)
  show ?thesis
    by (simp add: app_routed(2) [OF test_config_set rt] callback_handler_def callback_try_def
        requestSpotifyTokens_def Let_def try_catch_def await_def callback_reply_def
        get_member_def res_json_def)
qed

section \<open>Authorization errors relayed by GET /callback\<close>

text \<open>
  C7, as the code has it. Let \<^verbatim>\<open>CLIENT_ID\<close>, \<^verbatim>\<open>CLIENT_SECRET\<close> and \<^verbatim>\<open>REDIRECT_URI\<close> be set and
  not empty. When the query of a GET /callback request has an \<^verbatim>\<open>error\<close> parameter that is
  truthy and that converts to a string without throwing (a non-empty string; an array or
  an object in which the conversion meets no object with a property named \<^verbatim>\<open>toString\<close>),
  the application responds with status 400 and the body
  \<^verbatim>\<open>{success:false, error, message, state}\<close>, where \<^verbatim>\<open>error\<close> is that same value, \<^verbatim>\<open>message\<close>
  is \<^verbatim>\<open>Spotify authorization failed: \<close> followed by the value as a string, and \<^verbatim>\<open>state\<close> is
  the \<^verbatim>\<open>state\<close> parameter when that is truthy and \<^verbatim>\<open>null\<close> otherwise; no request is sent to
  the provider.
\<close>

theorem authorization_error_relayed:
  assumes "env_truthy (CLIENT_ID cfg)" "env_truthy (CLIENT_SECRET cfg)"
    "env_truthy (REDIRECT_URI cfg)"
    and "routed_to matches req ''/callback''"
    and "map_of (query req) ''error'' = Some e" and "q_truthy (Some e)"
    and "q_String e = Inr error_text"
  shows "app matches cfg w req =
    (Inr (Json 400 (JObj
       [(''success'', JBool False),
        (''error'', q_json e),
        (''message'', JStr (''Spotify authorization failed: '' @ error_text)),
        (''state'', case map_of (query req) ''state'' of
                      None \<Rightarrow> JNull
                    | Some s \<Rightarrow> if q_truthy (Some s) then q_json s else JNull)])),
     [])"
  using assms(5-7) app_routed(2) [OF assms(1-4), of w]
  by (auto simp: callback_handler_def res_json_def Let_def split: option.splits)

text \<open>The request of the test suite, \<^verbatim>\<open>GET /callback?error=access_denied&state=abc\<close>.\<close>

theorem authorization_error_relayed_witness:
  "env_truthy (CLIENT_ID test_config) \<and> env_truthy (CLIENT_SECRET test_config)
   \<and> env_truthy (REDIRECT_URI test_config)
   \<and> routed_to express_match
        \<lparr>req_method = ''GET'', path = ''/callback'',
          query = [(''error'', QStr ''access_denied''), (''state'', QStr ''abc'')]\<rparr> ''/callback''
   \<and> map_of [(''error'', QStr ''access_denied''), (''state'', QStr ''abc'')] ''error''
       = Some (QStr ''access_denied'')
   \<and> q_truthy (Some (QStr ''access_denied''))
   \<and> q_String (QStr ''access_denied'') = Inr ''access_denied''
   \<and> app express_match test_config
        \<lparr>entropy = (\<lambda>i. 0), clock = ''2026-01-01T00:00:00.000Z'', provider = (\<lambda>r. Inr JNull)\<rparr>
        \<lparr>req_method = ''GET'', path = ''/callback'',
          query = [(''error'', QStr ''access_denied''), (''state'', QStr ''abc'')]\<rparr>
      = (Inr (Json 400 (JObj
           [(''success'', JBool False),
            (''error'', JStr ''access_denied''),
            (''message'', JStr ''Spotify authorization failed: access_denied''),
            (''state'', JStr ''abc'')])), [])"
proof -
  let ?req = "\<lparr>req_method = ''GET'', path = ''/callback'',
                query = [(''error'', QStr ''access_denied''), (''state'', QStr ''abc'')]\<rparr>"
  have rt: "routed_to express_match ?req ''/callback''"
    by (rule express_routes) (simp_all add: handles_get_def)
  have a: "map_of (query ?req) ''error'' = Some (QStr ''access_denied'')" by simp
  have b: "q_truthy (Some (QStr ''access_denied''))" by simp
  have c: "q_String (QStr ''access_denied'') = Inr ''access_denied''" by simp
  show ?thesis
    using test_config_set rt a b c
      authorization_error_relayed [OF test_config_set rt a b c,
        of "\<lparr>entropy = (\<lambda>i. 0), clock = ''2026-01-01T00:00:00.000Z'', provider = (\<lambda>r. Inr JNull)\<rparr>"]
    by simp
qed

text \<open>
  The claim as the specification words it fails, with the configuration set, on
  \<^verbatim>\<open>GET /callback?error=&state=abc\<close>: the query has an \<^verbatim>\<open>error\<close> parameter, the empty string,
  and the response reports \<^verbatim>\<open>missing_code\<close> and has no \<^verbatim>\<open>state\<close>.
\<close>

theorem empty_error_parameter_counterexample:
  "map_of [(''error'', QStr []), (''state'', QStr ''abc'')] ''error'' = Some (QStr [])
   \<and> app express_match test_config
        \<lparr>entropy = (\<lambda>i. 0), clock = ''2026-01-01T00:00:00.000Z'', provider = (\<lambda>r. Inr JNull)\<rparr>
        \<lparr>req_method = ''GET'', path = ''/callback'',
          query = [(''error'', QStr []), (''state'', QStr ''abc'')]\<rparr>
      = (Inr (Json 400 (JObj
           [(''success'', JBool False),
            (''error'', JStr ''missing_code''),
            (''message'', JStr ''No authorization code was returned by Spotify.'')])), [])"
proof -
  have rt: "routed_to express_match
      \<lparr>req_method = ''GET'', path = ''/callback'',
        query = [(''error'', QStr []), (''state'', QStr ''abc'')]\<rparr> ''/callback''"
    by (rule express_routes) (simp_all add: handles_get_def)
  show ?thesis
    by (simp add: app_routed(2) [OF test_config_set rt] callback_handler_def res_json_def)
qed

text \<open>
  C10, as the code has it. Let \<^verbatim>\<open>CLIENT_ID\<close>, \<^verbatim>\<open>CLIENT_SECRET\<close> and \<^verbatim>\<open>REDIRECT_URI\<close> be set
  and not empty. When the query of a GET /callback request has an \<^verbatim>\<open>error\<close> parameter
  that is truthy and converts to a string without throwing, the error branch takes
  precedence over a \<^verbatim>\<open>code\<close>: the response is the 400 relay of the error, made of
  \<^verbatim>\<open>error\<close> and \<^verbatim>\<open>state\<close> alone, and no request is sent to the provider; any other
  GET /callback request with the same \<^verbatim>\<open>error\<close> and \<^verbatim>\<open>state\<close>, whatever its \<^verbatim>\<open>code\<close> and
  whatever the provider would answer, gets the same response.
\<close>

theorem error_precedes_code:
  assumes "env_truthy (CLIENT_ID cfg)" "env_truthy (CLIENT_SECRET cfg)"
    "env_truthy (REDIRECT_URI cfg)"
    and "routed_to matches req ''/callback''" and "routed_to matches req' ''/callback''"
    and "map_of (query req) ''error'' = Some e" and "q_truthy (Some e)"
    and "q_String e = Inr error_text"
    and "map_of (query req') ''error'' = map_of (query req) ''error''"
    and "map_of (query req') ''state'' = map_of (query req) ''state''"
  shows "app matches cfg w req =
      (Inr (Json 400 (JObj
         [(''success'', JBool False),
          (''error'', q_json e),
          (''message'', JStr (''Spotify authorization failed: '' @ error_text)),
          (''state'', case map_of (query req) ''state'' of
                        None \<Rightarrow> JNull
                      | Some s \<Rightarrow> if q_truthy (Some s) then q_json s else JNull)])),
       [])
    \<and> app matches cfg w' req' = app matches cfg w req"
  using assms(6-10) app_routed(2) [OF assms(1-4), of w] app_routed(2) [OF assms(1-3,5), of w']
  by (auto simp: callback_handler_def res_json_def Let_def split: option.splits)

text \<open>\<^verbatim>\<open>GET /callback?error=access_denied&code=abc&state=xyz\<close> and the same without the code.\<close>

theorem error_precedes_code_witness:
  "env_truthy (CLIENT_ID test_config) \<and> env_truthy (CLIENT_SECRET test_config)
   \<and> env_truthy (REDIRECT_URI test_config)
   \<and> routed_to express_match
        \<lparr>req_method = ''GET'', path = ''/callback'',
          query = [(''error'', QStr ''access_denied''), (''code'', QStr ''abc''), (''state'', QStr ''xyz'')]\<rparr>
        ''/callback''
   \<and> q_truthy (map_of [(''error'', QStr ''access_denied''), (''code'', QStr ''abc''),
                       (''state'', QStr ''xyz'')] ''error'')
   \<and> app express_match test_config
        \<lparr>entropy = (\<lambda>i. 0), clock = ''2026-01-01T00:00:00.000Z'',
          provider = (\<lambda>r. Inr (JObj [(''access_token'', JStr ''BQD'')]))\<rparr>
        \<lparr>req_method = ''GET'', path = ''/callback'',
          query = [(''error'', QStr ''access_denied''), (''code'', QStr ''abc''), (''state'', QStr ''xyz'')]\<rparr>
      = (Inr (Json 400 (JObj
           [(''success'', JBool False),
            (''error'', JStr ''access_denied''),
            (''message'', JStr ''Spotify authorization failed: access_denied''),
            (''state'', JStr ''xyz'')])), [])
   \<and> app express_match test_config
        \<lparr>entropy = (\<lambda>i. 0), clock = ''2026-01-01T00:00:00.000Z'',
          provider = (\<lambda>r. Inl (Error ''unreachable''))\<rparr>
        \<lparr>req_method = ''GET'', path = ''/callback'',
          query = [(''error'', QStr ''access_denied''), (''state'', QStr ''xyz'')]\<rparr>
      = app express_match test_config
        \<lparr>entropy = (\<lambda>i. 0), clock = ''2026-01-01T00:00:00.000Z'',
          provider = (\<lambda>r. Inr (JObj [(''access_token'', JStr ''BQD'')]))\<rparr>
        \<lparr>req_method = ''GET'', path = ''/callback'',
          query = [(''error'', QStr ''access_denied''), (''code'', QStr ''abc''), (''state'', QStr ''xyz'')]\<rparr>"
proof -
  let ?req = "\<lparr>req_method = ''GET'', path = ''/callback'',
      query = [(''error'', QStr ''access_denied''), (''code'', QStr ''abc''), (''state'', QStr ''xyz'')]\<rparr>"
  let ?req' = "\<lparr>req_method = ''GET'', path = ''/callback'',
      query = [(''error'', QStr ''access_denied''), (''state'', QStr ''xyz'')]\<rparr>"
  let ?w = "\<lparr>entropy = (\<lambda>i. 0), clock = ''2026-01-01T00:00:00.000Z'',
      provider = (\<lambda>r. Inr (JObj [(''access_token'', JStr ''BQD'')]))\<rparr>"
  let ?w' = "\<lparr>entropy = (\<lambda>i. 0), clock = ''2026-01-01T00:00:00.000Z'',
      provider = (\<lambda>r. Inl (Error ''unreachable''))\<rparr>"
  have rt: "routed_to express_match ?req ''/callback''"
    by (rule express_routes) (simp_all add: handles_get_def)
  have rt': "routed_to express_match ?req' ''/callback''"
    by (rule express_routes) (simp_all add: handles_get_def)
  have a: "map_of (query ?req) ''error'' = Some (QStr ''access_denied'')" by simp
  have b: "q_truthy (Some (QStr ''access_denied''))" by simp
  have c: "q_String (QStr ''access_denied'') = Inr ''access_denied''" by simp
  have d: "map_of (query ?req') ''error'' = map_of (query ?req) ''error''" by simp
  have e: "map_of (query ?req') ''state'' = map_of (query ?req) ''state''" by simp
  show ?thesis
    using test_config_set rt b
      error_precedes_code [OF test_config_set rt rt' a b c d e, of ?w ?w']
    by simp
qed

text \<open>
  The claim as the specification words it fails, with the configuration set, on
  \<^verbatim>\<open>GET /callback?error=&code=abc\<close>: the query has both parameters, the code is exchanged
  and the response has status 200.
\<close>

theorem empty_error_with_code_counterexample:
  "map_of [(''error'', QStr []), (''code'', QStr ''abc'')] ''error'' = Some (QStr [])
   \<and> map_of [(''error'', QStr []), (''code'', QStr ''abc'')] ''code'' = Some (QStr ''abc'')
   \<and> fst (app express_match test_config
        \<lparr>entropy = (\<lambda>i. 0), clock = ''2026-01-01T00:00:00.000Z'',
          provider = (\<lambda>r. Inr (JObj [(''access_token'', JStr ''BQD'')]))\<rparr>
        \<lparr>req_method = ''GET'', path = ''/callback'',
          query = [(''error'', QStr []), (''code'', QStr ''abc'')]\<rparr>)
      = Inr (Json 200 (JObj [(''success'', JBool True), (''access_token'', JStr ''BQD'')]))
   \<and> length (snd (app express_match test_config
        \<lparr>entropy = (\<lambda>i. 0), clock = ''2026-01-01T00:00:00.000Z'',
          provider = (\<lambda>r. Inr (JObj [(''access_token'', JStr ''BQD'')]))\<rparr>
        \<lparr>req_method = ''GET'', path = ''/callback'',
          query = [(''error'', QStr []), (''code'', QStr ''abc'')]\<rparr>)) = 1"
proof -
  have rt: "routed_to express_match
      \<lparr>req_method = ''GET'', path = ''/callback'',
        query = [(''error'', QStr []), (''code'', QStr ''abc'')]\<rparr> ''/callback''"
    by (rule express_routes) (simp_all add: handles_get_def)
  show ?thesis
    by (simp add: app_routed(2) [OF test_config_set rt] callback_handler_def callback_try_def
        requestSpotifyTokens_def Let_def try_catch_def await_def callback_reply_def
        get_member_def res_json_def)
qed

section \<open>The configuration guard\<close>

text \<open>
  C3. For every request whose path is neither \<^verbatim>\<open>/\<close> nor \<^verbatim>\<open>/health\<close>, when one of
  \<^verbatim>\<open>CLIENT_ID\<close>, \<^verbatim>\<open>CLIENT_SECRET\<close> and \<^verbatim>\<open>REDIRECT_URI\<close> is unset the application answers with
  status 500 and the body \<^verbatim>\<open>{error:"server_misconfigured", message}\<close>, whatever the router,
  the query and the provider are, and sends nothing to the provider. For a request to
  \<^verbatim>\<open>/\<close> or \<^verbatim>\<open>/health\<close> the guard passes the request on whatever the configuration is, and
  the answer is not that response.
\<close>

theorem env_guard_500:
  "(path req \<notin> {''/'', ''/health''}
      \<and> (CLIENT_ID cfg = None \<or> CLIENT_SECRET cfg = None \<or> REDIRECT_URI cfg = None) \<longrightarrow>
      app matches cfg w req =
        (Inr (Json 500 (JObj
           [(''error'', JStr ''server_misconfigured''),
            (''message'', JStr ''SPOTIFY_CLIENT_ID, SPOTIFY_CLIENT_SECRET, and SPOTIFY_REDIRECT_URI must be set in environment variables.'')])),
         []))
   \<and> (path req \<in> {''/'', ''/health''} \<longrightarrow>
      require_env cfg req = None \<and> fst (app matches cfg w req) \<noteq> Inr misconfigured)"
proof -
  have a: "path req \<notin> {''/'', ''/health''}
      \<and> (CLIENT_ID cfg = None \<or> CLIENT_SECRET cfg = None \<or> REDIRECT_URI cfg = None) \<longrightarrow>
      require_env cfg req = Some misconfigured"
    by (auto simp: require_env_def dest: env_truthy_defined)
  have b: "path req \<in> {''/'', ''/health''} \<longrightarrow> require_env cfg req = None"
    by (auto simp: require_env_def)
  show ?thesis
    using a b router_not_misconfigured [of matches cfg w req]
    by (auto simp: app_def misconfigured_def res_json_def)
qed

text \<open>
  The client secret is missing: a code sent to \<^verbatim>\<open>/callback\<close> is answered with 500, and a
  request to \<^verbatim>\<open>/health\<close> passes the guard.
\<close>

theorem env_guard_500_witness:
  "path \<lparr>req_method = ''GET'', path = ''/callback'', query = [(''code'', QStr ''abc'')]\<rparr>
     \<notin> {''/'', ''/health''}
   \<and> CLIENT_SECRET (test_config\<lparr>CLIENT_SECRET := None\<rparr>) = None
   \<and> app express_match (test_config\<lparr>CLIENT_SECRET := None\<rparr>)
        \<lparr>entropy = (\<lambda>i. 0), clock = ''2026-01-01T00:00:00.000Z'', provider = (\<lambda>r. Inr JNull)\<rparr>
        \<lparr>req_method = ''GET'', path = ''/callback'', query = [(''code'', QStr ''abc'')]\<rparr>
      = (Inr (Json 500 (JObj
           [(''error'', JStr ''server_misconfigured''),
            (''message'', JStr ''SPOTIFY_CLIENT_ID, SPOTIFY_CLIENT_SECRET, and SPOTIFY_REDIRECT_URI must be set in environment variables.'')])),
         [])
   \<and> path \<lparr>req_method = ''GET'', path = ''/health'', query = []\<rparr> \<in> {''/'', ''/health''}
   \<and> (require_env (test_config\<lparr>CLIENT_SECRET := None\<rparr>)
        \<lparr>req_method = ''GET'', path = ''/health'', query = []\<rparr>) = None"
  using env_guard_500 [of "\<lparr>req_method = ''GET'', path = ''/callback'', query = [(''code'', QStr ''abc'')]\<rparr>"
      "test_config\<lparr>CLIENT_SECRET := None\<rparr>" express_match
      "\<lparr>entropy = (\<lambda>i. 0), clock = ''2026-01-01T00:00:00.000Z'', provider = (\<lambda>r. Inr JNull)\<rparr>"]
    env_guard_500 [of "\<lparr>req_method = ''GET'', path = ''/health'', query = []\<rparr>"
      "test_config\<lparr>CLIENT_SECRET := None\<rparr>" express_match
      "\<lparr>entropy = (\<lambda>i. 0), clock = ''2026-01-01T00:00:00.000Z'', provider = (\<lambda>r. Inr JNull)\<rparr>"]
  by simp

section \<open>Unknown routes\<close>

text \<open>
  C4, as the code has it. When \<^verbatim>\<open>CLIENT_ID\<close>, \<^verbatim>\<open>CLIENT_SECRET\<close> and \<^verbatim>\<open>REDIRECT_URI\<close> are all
  set and not empty, every request whose path the router matches with none of the five
  routes is answered with status 404 and the body \<^verbatim>\<open>{error:"not_found", message}\<close>, the
  message naming the method and the path of the request.
\<close>

theorem unmatched_path_404:
  assumes "env_truthy (CLIENT_ID cfg)" "env_truthy (CLIENT_SECRET cfg)" "env_truthy (REDIRECT_URI cfg)"
    and "\<forall>route \<in> set routes. \<not> matches route (path req)"
  shows "app matches cfg w req =
    (Inr (Json 404 (JObj
       [(''error'', JStr ''not_found''),
        (''message'', JStr (''Route '' @ req_method req @ '' '' @ path req @ '' not found.''))])),
     [])"
  using assms
  by (simp add: app_def require_env_def router_def routes_def not_found_def res_json_def)

text \<open>The request of the test suite, \<^verbatim>\<open>GET /nonexistent\<close>, under the test configuration.\<close>

theorem unmatched_path_404_witness:
  "env_truthy (CLIENT_ID test_config) \<and> env_truthy (CLIENT_SECRET test_config)
   \<and> env_truthy (REDIRECT_URI test_config)
   \<and> list_all (\<lambda>route. \<not> express_match route ''/nonexistent'') routes
   \<and> app express_match test_config
        \<lparr>entropy = (\<lambda>i. 0), clock = ''2026-01-01T00:00:00.000Z'', provider = (\<lambda>r. Inr JNull)\<rparr>
        \<lparr>req_method = ''GET'', path = ''/nonexistent'', query = []\<rparr>
      = (Inr (Json 404 (JObj [(''error'', JStr ''not_found''),
                              (''message'', JStr ''Route GET /nonexistent not found.'')])), [])"
proof -
  have m: "\<forall>route \<in> set routes.
      \<not> express_match route (path \<lparr>req_method = ''GET'', path = ''/nonexistent'', query = []\<rparr>)"
    by (simp add: routes_def express_match_def lower_def)
  have m': "list_all (\<lambda>route. \<not> express_match route ''/nonexistent'') routes"
    using m by (simp add: list_all_iff)
  show ?thesis
    using test_config_set m' unmatched_path_404 [of test_config express_match
        "\<lparr>req_method = ''GET'', path = ''/nonexistent'', query = []\<rparr>"
        "\<lparr>entropy = (\<lambda>i. 0), clock = ''2026-01-01T00:00:00.000Z'', provider = (\<lambda>r. Inr JNull)\<rparr>",
        OF test_config_set m]
    by simp
qed

text \<open>
  The claim as the specification words it fails when the configuration is missing: the
  same request, to a path that is none of the five routes, is then answered with 500
  \<^verbatim>\<open>server_misconfigured\<close> by the guard.
\<close>

theorem unconfigured_unknown_path_counterexample:
  "''/nonexistent'' \<notin> set routes
   \<and> app express_match
        \<lparr>CLIENT_ID = None, CLIENT_SECRET = None, REDIRECT_URI = None\<rparr>
        \<lparr>entropy = (\<lambda>i. 0), clock = ''2026-01-01T00:00:00.000Z'', provider = (\<lambda>r. Inr JNull)\<rparr>
        \<lparr>req_method = ''GET'', path = ''/nonexistent'', query = []\<rparr>
      = (Inr (Json 500 (JObj
           [(''error'', JStr ''server_misconfigured''),
            (''message'', JStr ''SPOTIFY_CLIENT_ID, SPOTIFY_CLIENT_SECRET, and SPOTIFY_REDIRECT_URI must be set in environment variables.'')])),
         [])"
  by (simp add: routes_def app_def require_env_def misconfigured_def res_json_def)

section \<open>The shape of every error response\<close>

text \<open>
  C9. Every response of the application with a status of 400 or more, whichever branch
  produced it (the configuration guard, a missing parameter, a relayed authorization
  error, an error reported by the provider, a failed outbound call, or the 404 handler),
  is JSON whose body has an \<^verbatim>\<open>error\<close> and a \<^verbatim>\<open>message\<close>.
\<close>

theorem error_responses_have_error_and_message:
  assumes "fst (app matches cfg w req) = Inr resp" and "400 \<le> status resp"
  shows "(\<exists>body. resp = Json (status resp) body)
       \<and> body_field resp ''error'' \<noteq> None
       \<and> body_field resp ''message'' \<noteq> None"
proof (cases "require_env cfg req")
  case (Some r)
  with assms(1) require_env_Some [OF Some] have "resp = misconfigured"
    by (simp add: app_def)
  then show ?thesis
    using res_json_is_Json by (simp add: misconfigured_def)
next
  case None
  with assms(1) have r: "fst (router matches cfg w req) = Inr resp"
    by (simp add: app_def)
  consider (home) "resp = home_handler"
    | (health) "resp = health_handler (clock w)"
    | (login) "resp = login_handler cfg (entropy w)"
    | (callback) "callback_handler cfg (provider w) (query req)
                    = (Inr resp, snd (router matches cfg w req))"
    | (refresh) "refresh_token_handler cfg (provider w) (query req)
                    = (Inr resp, snd (router matches cfg w req))"
    | (nf) "resp = not_found req"
    using router_cases [of matches cfg w req] r by (auto simp: prod_eq_iff)
  then show ?thesis
  proof cases
    case home
    with assms(2) show ?thesis by (simp add: home_handler_def)
  next
    case health
    with assms(2) show ?thesis by (simp add: health_handler_def)
  next
    case login
    with assms(2) show ?thesis by (simp add: login_handler_def Let_def)
  next
    case callback
    from token_handler_failure [OF disjI1 [OF callback]] assms(2) show ?thesis by simp
  next
    case refresh
    from token_handler_failure [OF disjI2 [OF refresh]] assms(2) show ?thesis by simp
  next
    case nf
    then show ?thesis
      using res_json_is_Json by (simp add: not_found_def)
  qed
qed

text \<open>A code is exchanged and the provider's body is \<^verbatim>\<open>null\<close>.\<close>

theorem error_responses_have_error_and_message_witness:
  "(\<exists>resp. fst (app express_match test_config
        \<lparr>entropy = (\<lambda>i. 0), clock = ''2026-01-01T00:00:00.000Z'', provider = (\<lambda>r. Inr JNull)\<rparr>
        \<lparr>req_method = ''GET'', path = ''/callback'', query = [(''code'', QStr ''abc'')]\<rparr>) = Inr resp
     \<and> 400 \<le> status resp
     \<and> (\<exists>body. resp = Json 500 body)
     \<and> body_field resp ''error'' \<noteq> None
     \<and> body_field resp ''message'' \<noteq> None)"
proof -
  let ?req = "\<lparr>req_method = ''GET'', path = ''/callback'', query = [(''code'', QStr ''abc'')]\<rparr>"
  let ?w = "\<lparr>entropy = (\<lambda>i. 0), clock = ''2026-01-01T00:00:00.000Z'', provider = (\<lambda>r. Inr JNull)\<rparr>"
  let ?resp = "callback_catch (Error (null_property_message ''error''))"
  have rt: "routed_to express_match ?req ''/callback''"
    by (rule express_routes) (simp_all add: handles_get_def)
  have out: "fst (app express_match test_config ?w ?req) = Inr ?resp"
    by (simp add: app_routed(2) [OF test_config_set rt] callback_handler_def callback_try_def
        requestSpotifyTokens_def Let_def try_catch_def await_def callback_reply_null)
  have st: "status ?resp = 500"
    by (simp add: callback_catch_def)
  then have h: "400 \<le> status ?resp" by simp
  show ?thesis
    using out h st error_responses_have_error_and_message [OF out h]
    by auto
qed

section \<open>The authorization redirect\<close>

text \<open>
  C5, as the code has it. Let \<^verbatim>\<open>CLIENT_ID\<close>, \<^verbatim>\<open>CLIENT_SECRET\<close> and \<^verbatim>\<open>REDIRECT_URI\<close> be set and
  not empty. The application answers every GET /login request with a 302 redirect and
  sends nothing to the provider. Read back as a URL, the target of the redirect has the
  host \<^verbatim>\<open>accounts.spotify.com\<close> and the path \<^verbatim>\<open>/authorize\<close>, and its query parameters are,
  in this order, \<^verbatim>\<open>response_type=code\<close>, the configured \<^verbatim>\<open>client_id\<close>, the nine fixed scopes
  separated by spaces, the configured \<^verbatim>\<open>redirect_uri\<close>, and the \<^verbatim>\<open>state\<close> the handler
  generated (\<open>env_String (Some s)\<close> is \<open>s\<close>). The state is not empty, and two calls whose
  sixteen random bytes differ have different states.
\<close>

theorem login_redirect:
  assumes "env_truthy (CLIENT_ID cfg)" "env_truthy (CLIENT_SECRET cfg)"
    "env_truthy (REDIRECT_URI cfg)"
    and "routed_to matches req ''/login''"
  shows "\<exists>location.
      app matches cfg w req = (Inr (Redirect 302 location), [])
    \<and> url_host location = Some ''accounts.spotify.com''
    \<and> url_pathname location = Some ''/authorize''
    \<and> url_searchParams location = Some
        [(''response_type'', ''code''),
         (''client_id'', env_String (CLIENT_ID cfg)),
         (''scope'', ''user-read-private user-read-email playlist-read-private playlist-modify-public playlist-modify-private user-library-read user-top-read user-read-playback-state user-modify-playback-state''),
         (''redirect_uri'', env_String (REDIRECT_URI cfg)),
         (''state'', generateState (entropy w) 16)]
    \<and> generateState (entropy w) 16 \<noteq> []
    \<and> (\<forall>rng'. randomBytes (entropy w) 16 \<noteq> randomBytes rng' 16 \<longrightarrow>
          generateState (entropy w) 16 \<noteq> generateState rng' 16)"
proof -
  have ne: "generateState (entropy w) 16 \<noteq> []"
    using length_generateState [of "entropy w" 16] by auto
  have inj: "\<forall>rng'. randomBytes (entropy w) 16 \<noteq> randomBytes rng' 16 \<longrightarrow>
      generateState (entropy w) 16 \<noteq> generateState rng' 16"
    using toString_hex_inj by (auto simp: generateState_def)
  have sc: "SCOPES = ''user-read-private user-read-email playlist-read-private playlist-modify-public playlist-modify-private user-library-read user-top-read user-read-playback-state user-modify-playback-state''"
    by (simp add: SCOPES_def)
  let ?params = "[(''response_type'', ''code''),
         (''client_id'', env_String (CLIENT_ID cfg)),
         (''scope'', SCOPES),
         (''redirect_uri'', env_String (REDIRECT_URI cfg)),
         (''state'', generateState (entropy w) 16)]"
  let ?location = "''https://accounts.spotify.com/authorize?'' @ URLSearchParams_toString ?params"
  have "login_handler cfg (entropy w) = Redirect 302 ?location"
    by (simp add: login_handler_def Let_def)
  with app_routed(1) [OF assms, of w]
  have 1: "app matches cfg w req = (Inr (Redirect 302 ?location), [])"
    by (simp only:)
  have rd: "read_url ?location =
      Some (''accounts.spotify.com'', ''/authorize'', URLSearchParams_toString ?params)"
    by (rule read_authorize_url [OF URLSearchParams_toString_query])
  have 2: "url_host ?location = Some ''accounts.spotify.com''"
    unfolding url_host_def by (simp only: rd option.map fst_conv)
  have 3: "url_pathname ?location = Some ''/authorize''"
    unfolding url_pathname_def by (simp only: rd option.map fst_conv snd_conv)
  have "url_searchParams ?location = Some ?params"
    unfolding url_searchParams_def
    by (simp only: rd option.map fst_conv snd_conv parse_query_toString)
  then have 4: "url_searchParams ?location = Some
        [(''response_type'', ''code''),
         (''client_id'', env_String (CLIENT_ID cfg)),
         (''scope'', ''user-read-private user-read-email playlist-read-private playlist-modify-public playlist-modify-private user-library-read user-top-read user-read-playback-state user-modify-playback-state''),
         (''redirect_uri'', env_String (REDIRECT_URI cfg)),
         (''state'', generateState (entropy w) 16)]"
    by (simp only: sc)
  from 1 2 3 4 ne inj show ?thesis by blast
qed

text \<open>Two calls under the test configuration, one drawing only zeros, the other only ones.\<close>

theorem login_redirect_witness:
  "env_truthy (CLIENT_ID test_config) \<and> env_truthy (CLIENT_SECRET test_config)
   \<and> env_truthy (REDIRECT_URI test_config)
   \<and> routed_to express_match \<lparr>req_method = ''GET'', path = ''/login'', query = []\<rparr> ''/login''
   \<and> randomBytes (\<lambda>i. 0) 16 \<noteq> randomBytes (\<lambda>i. 1) 16
   \<and> generateState (\<lambda>i. 0) 16 \<noteq> generateState (\<lambda>i. 1) 16
   \<and> (\<exists>location.
        app express_match test_config
          \<lparr>entropy = (\<lambda>i. 0), clock = ''2026-01-01T00:00:00.000Z'', provider = (\<lambda>r. Inr JNull)\<rparr>
          \<lparr>req_method = ''GET'', path = ''/login'', query = []\<rparr>
        = (Inr (Redirect 302 location), [])
      \<and> url_host location = Some ''accounts.spotify.com''
      \<and> url_pathname location = Some ''/authorize'')"
proof -
  let ?req = "\<lparr>req_method = ''GET'', path = ''/login'', query = []\<rparr>"
  let ?w = "\<lparr>entropy = (\<lambda>i. 0), clock = ''2026-01-01T00:00:00.000Z'', provider = (\<lambda>r. Inr JNull)\<rparr>"
  have rt: "routed_to express_match ?req ''/login''"
    by (rule express_routes) (simp_all add: handles_get_def)
  have d: "randomBytes (entropy ?w) 16 \<noteq> randomBytes (\<lambda>i. 1) 16"
    by (simp add: randomBytes_def upt_rec)
  from login_redirect [OF test_config_set rt, of ?w]
  obtain location where l: "app express_match test_config ?w ?req = (Inr (Redirect 302 location), [])"
      "url_host location = Some ''accounts.spotify.com''"
      "url_pathname location = Some ''/authorize''"
      "\<forall>rng'. randomBytes (entropy ?w) 16 \<noteq> randomBytes rng' 16 \<longrightarrow>
          generateState (entropy ?w) 16 \<noteq> generateState rng' 16"
    by blast
  from l(4) d have "generateState (entropy ?w) 16 \<noteq> generateState (\<lambda>i. 1) 16"
    by blast
  with test_config_set rt d l(1-3) show ?thesis
    by auto
qed

text \<open>
  The claim as the specification words it, for every GET /login request, fails when a
  variable is missing: the guard answers the request with 500 \<^verbatim>\<open>server_misconfigured\<close>
  and there is no redirect.
\<close>

theorem unconfigured_login_counterexample:
  "routed_to express_match \<lparr>req_method = ''GET'', path = ''/login'', query = []\<rparr> ''/login''
   \<and> app express_match
        \<lparr>CLIENT_ID = None, CLIENT_SECRET = Some ''test_client_secret'',
          REDIRECT_URI = Some ''http://localhost:3000/callback''\<rparr>
        \<lparr>entropy = (\<lambda>i. 0), clock = ''2026-01-01T00:00:00.000Z'', provider = (\<lambda>r. Inr JNull)\<rparr>
        \<lparr>req_method = ''GET'', path = ''/login'', query = []\<rparr>
      = (Inr (Json 500 (JObj
           [(''error'', JStr ''server_misconfigured''),
            (''message'', JStr ''SPOTIFY_CLIENT_ID, SPOTIFY_CLIENT_SECRET, and SPOTIFY_REDIRECT_URI must be set in environment variables.'')])),
         [])"
proof -
  have rt: "routed_to express_match \<lparr>req_method = ''GET'', path = ''/login'', query = []\<rparr> ''/login''"
    by (rule express_routes) (simp_all add: handles_get_def)
  show ?thesis
    using rt by (simp add: app_def require_env_def misconfigured_def res_json_def)
qed

end
